theory Spec2Isabelle
  imports Main
begin

text \<open>
  A shallow embedding of the inventory audit engine of the stock-audit application: the
  inventory provider (\<open>InventoryContext\<close>), the data service in front of the database
  (\<open>SupabaseDataService\<close>), the scan handler and the camera callback of the barcode scanner
  and the import handler of the file uploader, with the properties of status derivation,
  scanning, merging and summaries proved about them.
\<close>

section \<open>Data model (InventoryContext)\<close>

text \<open>
  The TypeScript interfaces of the inventory context. Quantities are JavaScript numbers that
  the program only ever uses as integers; they are modelled as \<open>int\<close>. The fields \<open>id\<close> and
  \<open>notes\<close> are called \<open>item_id\<close> and \<open>item_notes\<close>.

  The optional field \<open>physicalQuantity?: number\<close> has three kinds of value at run time:
  \<open>undefined\<close> when the object has no such field (a row of an imported file, an object built
  by hand), \<open>null\<close> when the record was read from a database row whose column is NULL
  (\<open>dbToInventoryItem\<close> copies the column as it is), or a number. The program tells the first
  two apart, since \<open>updateAuditedItem\<close> and \<open>scanItem\<close> test \<open>!== undefined\<close>, which holds
  of \<open>null\<close>. Every other optional field (\<open>name?: string\<close>) is only ever tested for
  truthiness (\<open>||\<close>), which does not tell \<open>undefined\<close> from \<open>null\<close>: it is an \<open>option\<close>,
  \<open>None\<close> standing for both.
\<close>

datatype status = Pending | Matched | Discrepancy

datatype jsnumber = Undefined | Null | Num int

record InventoryItem =
  item_id :: string
  sku :: string
  name :: "string option"
  category :: "string option"
  location :: string
  systemQuantity :: int
  physicalQuantity :: jsnumber
  status :: "status option"
  lastAudited :: "string option"
  item_notes :: "string option"
  companyId :: "string option"

record Location =
  loc_id :: string
  loc_name :: string
  loc_description :: "string option"
  loc_active :: "bool option"

datatype role = Admin | Auditor | Client

record UserProfile =
  user_id :: string
  email :: string
  role :: role
  user_name :: string
  assignedLocations :: "string list option"

section \<open>Persistence collaborator\<close>

text \<open>
  A row of the table \<open>inventory_items\<close>, with the columns that \<open>inventoryItemToDb\<close> writes.
  The column \<open>status\<close> is never null, since \<open>inventoryItemToDb\<close> always writes one.
\<close>

record dbItem =
  db_sku :: "string option"
  db_name :: "string option"
  db_location :: string
  system_quantity :: int
  physical_quantity :: "int option"
  db_status :: status
  last_audited :: "string option"
  db_notes :: "string option"
  company_id :: "string option"

text \<open>
  Modelled from the spec: the persistence collaborator (an external database service, of which
  the repository holds only the calls). The spec describes it as a keyed upsert
  \<open>upsert(records, conflictKey)\<close> and a full-scan read over reconciled items with the unique key
  SKU+location, enforcing required-field constraints; the comment in \<open>setClosingStock\<close> names the
  NOT NULL constraint of the column \<open>name\<close>. The table is a list of stored rows, each with the id
  the database generated for it. \<open>write_error\<close> and \<open>read_error\<close> are the collaborator's own
  failures, which the program cannot influence.
\<close>

record backend =
  inventory_items :: "(string \<times> dbItem) list"
  next_id :: nat
  uuid_gen :: "nat \<Rightarrow> string"
  write_error :: "string option"
  read_error :: bool

datatype error = PersistenceError string | ItemNotFound string string

definition conflicts :: "dbItem \<Rightarrow> dbItem \<Rightarrow> bool" where
  "conflicts r x \<longleftrightarrow> db_sku x = db_sku r \<and> db_location x = db_location r"

text \<open>
  Modelled from the spec: one row of an upsert with conflict key \<open>sku,location\<close>. A stored row
  with the same key is replaced and keeps its id; otherwise the row is inserted under a
  generated id.
\<close>

definition upsert_row :: "backend \<Rightarrow> dbItem \<Rightarrow> backend" where
  "upsert_row b r =
     (if \<exists>(i, x) \<in> set (inventory_items b). conflicts r x
      then b\<lparr>inventory_items :=
               map (\<lambda>(i, x). if conflicts r x then (i, r) else (i, x)) (inventory_items b)\<rparr>
      else b\<lparr>inventory_items := inventory_items b @ [(uuid_gen b (next_id b), r)],
              next_id := Suc (next_id b)\<rparr>)"

text \<open>
  Modelled from the spec: \<open>supabase.from('inventory_items').upsert(dbItems, {onConflict:
  'sku,location'})\<close>. The whole statement is rejected, with no write, when the collaborator
  fails or a row misses the required \<open>name\<close>.
\<close>

definition upsert :: "backend \<Rightarrow> dbItem list \<Rightarrow> error + backend" where
  "upsert b rows =
     (case write_error b of
        Some e \<Rightarrow> Inl (PersistenceError e)
      | None \<Rightarrow>
          if \<exists>r \<in> set rows. db_name r = None
          then Inl (PersistenceError ''null value in column name violates not-null constraint'')
          else Inr (foldl upsert_row b rows))"

text \<open>Modelled from the spec: \<open>select('*')\<close> with a not-null filter; an error or the rows.\<close>

definition select_all :: "backend \<Rightarrow> (dbItem \<Rightarrow> bool) \<Rightarrow> (string \<times> dbItem) list option" where
  "select_all b p =
     (if read_error b then None else Some (filter (\<lambda>(i, x). p x) (inventory_items b)))"

section \<open>SupabaseDataService\<close>

text \<open>\<open>Number(dbItem.system_quantity) || 0\<close>: a zero is falsy and gives the literal 0.\<close>

definition numberOrZero :: "int \<Rightarrow> int" where
  "numberOrZero n = (if n = 0 then 0 else n)"

text \<open>
  \<open>dbToInventoryItem\<close>. The id is always generated, so its null guard is not a branch here;
  a null \<open>sku\<close> becomes the empty string. There is no column for \<open>category\<close>. The line
  \<open>physicalQuantity: dbItem.physical_quantity\<close> copies a NULL column as \<open>null\<close>.
\<close>

definition dbToInventoryItem :: "string \<times> dbItem \<Rightarrow> InventoryItem" where
  "dbToInventoryItem ix =
     (case ix of (i, dbItem) \<Rightarrow>
        \<lparr> item_id = i,
          sku = (case db_sku dbItem of None \<Rightarrow> '''' | Some s \<Rightarrow> s),
          name = db_name dbItem,
          category = None,
          location = db_location dbItem,
          systemQuantity = numberOrZero (system_quantity dbItem),
          physicalQuantity = (case physical_quantity dbItem of None \<Rightarrow> Null | Some n \<Rightarrow> Num n),
          status = Some (db_status dbItem),
          lastAudited = last_audited dbItem,
          item_notes = db_notes dbItem,
          companyId = company_id dbItem \<rparr>)"

text \<open>
  \<open>inventoryItemToDb\<close>; \<open>item.status || 'pending'\<close> defaults an absent status. An
  \<open>undefined\<close> physical quantity is left out of the request and a \<open>null\<close> one is sent as
  null: either way the row written by the upsert has no physical quantity.
\<close>

definition inventoryItemToDb :: "InventoryItem \<Rightarrow> dbItem" where
  "inventoryItemToDb item =
     \<lparr> db_sku = Some (sku item),
       db_name = name item,
       db_location = location item,
       system_quantity = systemQuantity item,
       physical_quantity = (case physicalQuantity item of
                              Undefined \<Rightarrow> None | Null \<Rightarrow> None | Num n \<Rightarrow> Some n),
       db_status = (case status item of None \<Rightarrow> Pending | Some s \<Rightarrow> s),
       last_audited = lastAudited item,
       db_notes = item_notes item,
       company_id = companyId item \<rparr>"

text \<open>
  \<open>setItemMaster\<close>, \<open>setClosingStock\<close> and \<open>setAuditedItems\<close> of the service have the same
  body: nothing for an empty list, else an upsert whose error is rethrown.
\<close>

definition svc_setItemMaster :: "backend \<Rightarrow> InventoryItem list \<Rightarrow> error + backend" where
  "svc_setItemMaster b items =
     (if length items > 0 then upsert b (map inventoryItemToDb items) else Inr b)"

definition svc_setClosingStock :: "backend \<Rightarrow> InventoryItem list \<Rightarrow> error + backend" where
  "svc_setClosingStock b items =
     (if length items > 0 then upsert b (map inventoryItemToDb items) else Inr b)"

definition svc_setAuditedItems :: "backend \<Rightarrow> InventoryItem list \<Rightarrow> error + backend" where
  "svc_setAuditedItems b items =
     (if length items > 0 then upsert b (map inventoryItemToDb items) else Inr b)"

text \<open>The reads catch their error and answer the empty list.\<close>

definition getItemMaster :: "backend \<Rightarrow> InventoryItem list" where
  "getItemMaster b =
     (case select_all b (\<lambda>x. db_sku x \<noteq> None) of
        None \<Rightarrow> [] | Some data \<Rightarrow> map dbToInventoryItem data)"

definition getClosingStock :: "backend \<Rightarrow> InventoryItem list" where
  "getClosingStock b =
     (case select_all b (\<lambda>x. physical_quantity x \<noteq> None) of
        None \<Rightarrow> [] | Some data \<Rightarrow> map dbToInventoryItem data)"

definition getAuditedItems :: "backend \<Rightarrow> InventoryItem list" where
  "getAuditedItems b =
     (case select_all b (\<lambda>x. last_audited x \<noteq> None) of
        None \<Rightarrow> [] | Some data \<Rightarrow> map dbToInventoryItem data)"

section \<open>InventoryProvider\<close>

text \<open>The React state of the provider, together with the database it mirrors.\<close>

record InventoryState =
  itemMaster :: "InventoryItem list"
  closingStock :: "InventoryItem list"
  auditedItems :: "InventoryItem list"
  locations :: "Location list"
  backend :: backend

text \<open>
  \<open>item.physicalQuantity || 0\<close>: \<open>undefined\<close>, \<open>null\<close> and zero are falsy and give 0.
\<close>

definition quantityOrZero :: "jsnumber \<Rightarrow> int" where
  "quantityOrZero q =
     (case q of Undefined \<Rightarrow> 0 | Null \<Rightarrow> 0 | Num n \<Rightarrow> if n = 0 then 0 else n)"

text \<open>
  The local constant \<open>itemToUpdate\<close> of \<open>updateAuditedItem\<close>; \<open>now\<close> is
  \<open>new Date().toISOString()\<close>. The test \<open>item.physicalQuantity !== undefined\<close> is
  \<open>physicalQuantity item \<noteq> Undefined\<close>, true of \<open>null\<close>; the strict equality
  \<open>item.systemQuantity === item.physicalQuantity\<close> of a number with \<open>null\<close> is false; the
  stored quantity is \<open>item.physicalQuantity || 0\<close>.
\<close>

definition itemToUpdate :: "string \<Rightarrow> InventoryItem \<Rightarrow> InventoryItem" where
  "itemToUpdate now item =
     item\<lparr> physicalQuantity := Num (quantityOrZero (physicalQuantity item)),
           status := Some (if physicalQuantity item \<noteq> Undefined
                              \<and> Num (systemQuantity item) = physicalQuantity item
                           then Matched
                           else (if physicalQuantity item \<noteq> Undefined
                                 then Discrepancy else Pending)),
           lastAudited := Some now \<rparr>"

definition updateAuditedItem :: "string \<Rightarrow> InventoryState \<Rightarrow> InventoryItem \<Rightarrow> error + InventoryState" where
  "updateAuditedItem now st item =
     (case svc_setAuditedItems (backend st) [itemToUpdate now item] of
        Inl e \<Rightarrow> Inl e
      | Inr b \<Rightarrow>
          Inr (st\<lparr> backend := b,
                   itemMaster := getItemMaster b,
                   closingStock := getClosingStock b,
                   auditedItems := getAuditedItems b \<rparr>))"

text \<open>
  \<open>addItemToAudit\<close>: \<open>now0\<close> is the time read here, \<open>now\<close> the one read by
  \<open>updateAuditedItem\<close>. The early \<open>return\<close> resolves without an error.
\<close>

definition addItemToAudit :: "string \<Rightarrow> string \<Rightarrow> InventoryState \<Rightarrow> InventoryItem \<Rightarrow> int \<Rightarrow> error + InventoryState" where
  "addItemToAudit now0 now st item quantity =
     (if quantity < 0 then Inr st
      else updateAuditedItem now st
             (item\<lparr> physicalQuantity := Num quantity,
                    status := Some (if quantity = systemQuantity item then Matched else Discrepancy),
                    lastAudited := Some now0 \<rparr>))"


text \<open>\<open>setItemMaster\<close> of the provider: upsert, then refresh two of the lists.\<close>

definition setItemMaster :: "InventoryState \<Rightarrow> InventoryItem list \<Rightarrow> error + InventoryState" where
  "setItemMaster st items =
     (case svc_setItemMaster (backend st) items of
        Inl e \<Rightarrow> Inl e
      | Inr b \<Rightarrow>
          Inr (st\<lparr> backend := b,
                   itemMaster := getItemMaster b,
                   closingStock := getClosingStock b \<rparr>))"

text \<open>
  The function mapped over the incoming rows in \<open>setClosingStock\<close>, and the constant
  \<open>mergedClosingStock\<close> it builds from the current \<open>itemMaster\<close>.
\<close>

definition mergeIncomingItem :: "InventoryItem list \<Rightarrow> InventoryItem \<Rightarrow> InventoryItem" where
  "mergeIncomingItem master incomingItem =
     (case find (\<lambda>i. sku i = sku incomingItem \<and> location i = location incomingItem) master of
        Some existingItem \<Rightarrow> existingItem\<lparr> systemQuantity := systemQuantity incomingItem \<rparr>
      | None \<Rightarrow> incomingItem)"

definition mergedClosingStock :: "InventoryItem list \<Rightarrow> InventoryItem list \<Rightarrow> InventoryItem list" where
  "mergedClosingStock master items = map (mergeIncomingItem master) items"

definition setClosingStock :: "InventoryState \<Rightarrow> InventoryItem list \<Rightarrow> error + InventoryState" where
  "setClosingStock st items =
     (case svc_setClosingStock (backend st) (mergedClosingStock (itemMaster st) items) of
        Inl e \<Rightarrow> Inl e
      | Inr b \<Rightarrow>
          Inr (st\<lparr> backend := b,
                   itemMaster := getItemMaster b,
                   closingStock := getClosingStock b \<rparr>))"

subsection \<open>Summaries\<close>

record Summary =
  totalItems :: int
  auditedCount :: int
  pendingItems :: int
  matched :: int
  discrepancies :: int

text \<open>
  The \<open>forEach\<close> loop that both summaries run over their master items, with the two counters
  it increments; the two loop bodies are the same text.
\<close>

definition countStep :: "InventoryItem list \<Rightarrow> InventoryItem \<Rightarrow> int \<times> int \<Rightarrow> int \<times> int" where
  "countStep auditedList masterItem c =
     (case c of (m, d) \<Rightarrow>
        (case find (\<lambda>a. sku a = sku masterItem \<and> location a = location masterItem) auditedList of
           None \<Rightarrow> (m, d)
         | Some audited \<Rightarrow>
             if status audited = Some Matched then (m + 1, d)
             else if status audited = Some Discrepancy then (m, d + 1)
             else (m, d)))"

definition countStatuses :: "InventoryItem list \<Rightarrow> InventoryItem list \<Rightarrow> int \<times> int" where
  "countStatuses masterList auditedList = fold (countStep auditedList) masterList (0, 0)"

text \<open>The key \<open>`${i.sku}-${i.location}`\<close> collected in a JavaScript \<open>Set\<close>.\<close>

definition auditedItemKey :: "InventoryItem \<Rightarrow> string" where
  "auditedItemKey i = sku i @ ''-'' @ location i"

definition getInventorySummary :: "InventoryState \<Rightarrow> Summary" where
  "getInventorySummary st =
     (let total = int (length (itemMaster st));
          auditedItemsCount = int (card (set (map auditedItemKey (auditedItems st))));
          c = countStatuses (itemMaster st) (auditedItems st)
      in \<lparr> totalItems = total,
            auditedCount = auditedItemsCount,
            pendingItems = total - auditedItemsCount,
            matched = fst c,
            discrepancies = snd c \<rparr>)"

definition getLocationSummary :: "InventoryState \<Rightarrow> string \<Rightarrow> Summary" where
  "getLocationSummary st locationName =
     (let locationItems = filter (\<lambda>item. location item = locationName) (itemMaster st);
          locationAuditedItems = filter (\<lambda>item. location item = locationName) (auditedItems st);
          total = int (length locationItems);
          auditedItemsCount = int (length locationAuditedItems);
          c = countStatuses locationItems locationAuditedItems
      in \<lparr> totalItems = total,
            auditedCount = auditedItemsCount,
            pendingItems = total - auditedItemsCount,
            matched = fst c,
            discrepancies = snd c \<rparr>)"

section \<open>BarcodeScanner: handleItemScan\<close>

text \<open>The toasts shown to the user, by kind and title.\<close>

datatype toast = ToastError string | ToastWarning string | ToastSuccess string

text \<open>
  Step 2, the location correction: an error toast (the scan stops), or the warnings shown and
  the location name to go on with. \<open>userAccessibleLocations\<close> comes from the hook
  \<open>useUserAccess\<close> and is a parameter.
\<close>

definition locationCorrection ::
  "UserProfile option \<Rightarrow> Location list \<Rightarrow> InventoryItem \<Rightarrow> string \<Rightarrow> toast + toast list \<times> string" where
  "locationCorrection currentUser userAccessibleLocations masterItem locationName =
     (if location masterItem \<noteq> locationName then
        (if (case currentUser of None \<Rightarrow> False | Some u \<Rightarrow> role u = Admin)
         then Inr ([ToastWarning ''Location mismatch''], location masterItem)
         else (case find (\<lambda>loc. loc_name loc = location masterItem) userAccessibleLocations of
                 None \<Rightarrow> Inl (ToastError ''Access denied'')
               | Some itemLocationAccess \<Rightarrow>
                   Inr ([ToastWarning ''Location corrected''], location masterItem)))
      else Inr ([], locationName))"

text \<open>\<open>a || b\<close> on optional strings: an absent or empty \<open>a\<close> gives \<open>b\<close>.\<close>

definition stringOr :: "string option \<Rightarrow> string option \<Rightarrow> string option" where
  "stringOr a b = (case a of None \<Rightarrow> b | Some s \<Rightarrow> if s = [] then b else Some s)"

text \<open>
  Steps 3 and 4: the quantity, the status and the item handed to \<open>updateAuditedItem\<close>;
  \<open>now0\<close> is the time read in this step.
\<close>

definition initialPhysicalQuantity :: "InventoryItem list \<Rightarrow> InventoryItem \<Rightarrow> string \<Rightarrow> int" where
  "initialPhysicalQuantity audited masterItem locationName =
     quantityOrZero
       (case find (\<lambda>item. sku item = sku masterItem \<and> location item = locationName) audited of
          None \<Rightarrow> Undefined
        | Some existingAuditedItem \<Rightarrow> physicalQuantity existingAuditedItem)"

definition scannedItem :: "string \<Rightarrow> InventoryItem list \<Rightarrow> InventoryItem \<Rightarrow> string \<Rightarrow> InventoryItem" where
  "scannedItem now0 audited masterItem locationName =
     (let existingAuditedItem =
            find (\<lambda>item. sku item = sku masterItem \<and> location item = locationName) audited;
          newPhysicalQuantity = initialPhysicalQuantity audited masterItem locationName + 1
      in \<lparr> item_id = item_id masterItem,
            sku = sku masterItem,
            name = name masterItem,
            category = category masterItem,
            location = locationName,
            systemQuantity = systemQuantity masterItem,
            physicalQuantity = Num newPhysicalQuantity,
            status = Some (if newPhysicalQuantity = systemQuantity masterItem
                           then Matched else Discrepancy),
            lastAudited = Some now0,
            item_notes = stringOr (case existingAuditedItem of None \<Rightarrow> None
                                                      | Some e \<Rightarrow> item_notes e)
                                  (item_notes masterItem),
            companyId = None \<rparr>)"

text \<open>
  \<open>handleItemScan\<close>: the boolean it resolves to, the toasts in order, and the state after.
  An error thrown by \<open>updateAuditedItem\<close> is caught and reported.
\<close>

definition handleItemScan ::
  "UserProfile option \<Rightarrow> Location list \<Rightarrow> string \<Rightarrow> string \<Rightarrow> InventoryState \<Rightarrow> string \<Rightarrow> string
     \<Rightarrow> bool \<times> toast list \<times> InventoryState" where
  "handleItemScan currentUser userAccessibleLocations now0 now st barcode locationId =
     (if locationId = [] then (False, [ToastError ''Location Required''], st)
      else
        let locationName =
              (case find (\<lambda>loc. loc_id loc = locationId) (locations st) of
                 None \<Rightarrow> [] | Some locationObj \<Rightarrow> loc_name locationObj)
        in if locationName = [] then (False, [ToastError ''Invalid Location''], st)
           else
             (case find (\<lambda>item. item_id item = barcode \<or> sku item = barcode) (itemMaster st) of
                None \<Rightarrow> (False, [ToastError ''Item not found''], st)
              | Some masterItem \<Rightarrow>
                  (case locationCorrection currentUser userAccessibleLocations masterItem locationName of
                     Inl t \<Rightarrow> (False, [t], st)
                   | Inr (warnings, locationName') \<Rightarrow>
                       let item = scannedItem now0 (auditedItems st) masterItem locationName'
                       in (case updateAuditedItem now st item of
                             Inl e \<Rightarrow> (False, warnings @ [ToastError ''Scanning Error''], st)
                           | Inr st' \<Rightarrow>
                               (True,
                                warnings @
                                  [if status item = Some Matched
                                   then ToastSuccess ''Item scanned - Matched!''
                                   else ToastWarning ''Item scanned - Discrepancy detected!''],
                                st')))))"

subsection \<open>The render a handler belongs to\<close>

text \<open>
  \<open>handleItemScan\<close> is created anew in every render of the scanner and reads the lists
  \<open>itemMaster\<close>, \<open>auditedItems\<close> and \<open>locations\<close> of that render. The manual form calls
  the handler of the current render, and the key listener of the hardware scanner is
  registered again whenever one of the lists changes. A handler of an earlier render, whose
  state was \<open>rendered\<close>, sees the lists of that render, while \<open>updateAuditedItem\<close> writes to
  the database as it is now and refreshes the provider's state \<open>st\<close>.
\<close>

definition renderedView :: "InventoryState \<Rightarrow> InventoryState \<Rightarrow> InventoryState" where
  "renderedView rendered st =
     st\<lparr> itemMaster := itemMaster rendered, auditedItems := auditedItems rendered,
         locations := locations rendered \<rparr>"

text \<open>
  \<open>onScanSuccess\<close>, the callback of the camera. \<open>handleStartScanning\<close> hands it to
  \<open>html5QrCode.start\<close>, which keeps it until the camera is stopped: every code the camera
  decodes is handled by the \<open>handleItemScan\<close> of the render in which the camera was started.
  The result is the boolean, the toasts and the provider's state after.
\<close>

definition onScanSuccess ::
  "UserProfile option \<Rightarrow> Location list \<Rightarrow> string \<Rightarrow> string \<Rightarrow> InventoryState \<Rightarrow> InventoryState
     \<Rightarrow> string \<Rightarrow> string \<Rightarrow> bool \<times> toast list \<times> InventoryState" where
  "onScanSuccess currentUser userAccessibleLocations now0 now rendered st decodedText selectedLocation =
     (case handleItemScan currentUser userAccessibleLocations now0 now (renderedView rendered st)
             decodedText selectedLocation of
        (success, toasts, st') \<Rightarrow>
          (success, toasts, if success then st'\<lparr> locations := locations st \<rparr> else st))"

section \<open>FileUploader: handleImport\<close>

text \<open>
  The constant \<open>processedItems\<close> of the item-master branch. \<open>processItemMasterData\<close> lives
  in \<open>utils/csvUtils\<close> and is a parameter, as is \<open>processCSV\<close> below.
\<close>

definition processedItems :: "('row list \<Rightarrow> InventoryItem list) \<Rightarrow> 'row list \<Rightarrow> InventoryItem list" where
  "processedItems processItemMasterData items =
     map (\<lambda>item. item\<lparr> systemQuantity := 0 \<rparr>) (processItemMasterData items)"

text \<open>
  The item-master branch: \<open>Inl\<close> when \<open>handleImport\<close> returns or fails here, \<open>Inr\<close> when it
  goes on to the closing-stock branch; with the toasts shown and the state.
\<close>

definition importItemMaster ::
  "(string \<Rightarrow> 'row list) \<Rightarrow> ('row list \<Rightarrow> InventoryItem list) \<Rightarrow> bool \<Rightarrow> string option
     \<Rightarrow> InventoryState \<Rightarrow> toast list \<times> InventoryState + toast list \<times> InventoryState" where
  "importItemMaster processCSV processItemMasterData canUploadItemMaster itemMasterFile st =
     (case itemMasterFile of
        None \<Rightarrow> Inr ([], st)
      | Some text \<Rightarrow>
          if \<not> canUploadItemMaster then Inr ([], st)
          else
            let items = processCSV text
            in if length items = 0
               then Inl ([ToastError ''Invalid file format or empty file''], st)
               else
                 let processed = processedItems processItemMasterData items
                 in if length processed = 0
                    then Inl ([ToastError ''No items were processed.''], st)
                    else (case setItemMaster st processed of
                            Inl e \<Rightarrow> Inl ([ToastError ''Import failed''], st)
                          | Inr st' \<Rightarrow> Inr ([ToastSuccess ''Item master data imported''], st')))"

text \<open>
  The closing-stock branch, entered after the item-master branch went through;
  \<open>processClosingStockData\<close> lives in \<open>utils/csvUtils\<close> and is a parameter. The
  \<open>setClosingStock\<close> called here is the function that \<open>useInventory\<close> returned in the
  render in which the import was started: it merges against the \<open>itemMaster\<close> of that
  render, \<open>renderedItemMaster\<close>, and writes to the database as it is now. \<open>st\<close> is the
  provider's state when the branch is entered.
\<close>

definition importClosingStock ::
  "(string \<Rightarrow> 'row list) \<Rightarrow> ('row list \<Rightarrow> string option \<Rightarrow> Location list \<Rightarrow> InventoryItem list)
     \<Rightarrow> role \<Rightarrow> bool \<Rightarrow> string option \<Rightarrow> string \<Rightarrow> InventoryItem list \<Rightarrow> InventoryState
     \<Rightarrow> toast list \<times> InventoryState" where
  "importClosingStock processCSV processClosingStockData userRole canUploadClosingStock
     closingStockFile selectedLocation renderedItemMaster st =
     (case closingStockFile of
        None \<Rightarrow> ([], st)
      | Some text \<Rightarrow>
          if \<not> canUploadClosingStock then ([], st)
          else
            let items = processCSV text
            in if length items = 0
               then ([ToastError ''Invalid file format or empty file''], st)
               else
                 let locationToUse = (if userRole = Auditor then Some selectedLocation else None);
                     processed = processClosingStockData items locationToUse (locations st)
                 in (case setClosingStock (st\<lparr> itemMaster := renderedItemMaster \<rparr>) processed of
                       Inl e \<Rightarrow> ([ToastError ''Import failed''], st)
                     | Inr st' \<Rightarrow> ([ToastSuccess ''Closing stock data imported''], st')))"

text \<open>
  \<open>handleImport\<close>: the toasts shown and the state after. An auditor who uploads closing stock
  must have selected a location; an error in either branch ends the import. The whole handler
  belongs to the render of the state \<open>st\<close>: when both files are imported, the closing-stock
  branch still merges against \<open>itemMaster st\<close>, not against the catalog that the item-master
  branch has just written.
\<close>

definition handleImport ::
  "(string \<Rightarrow> 'row list) \<Rightarrow> ('row list \<Rightarrow> InventoryItem list)
     \<Rightarrow> ('row list \<Rightarrow> string option \<Rightarrow> Location list \<Rightarrow> InventoryItem list)
     \<Rightarrow> role \<Rightarrow> bool \<Rightarrow> bool \<Rightarrow> string option \<Rightarrow> string option \<Rightarrow> string \<Rightarrow> InventoryState
     \<Rightarrow> toast list \<times> InventoryState" where
  "handleImport processCSV processItemMasterData processClosingStockData userRole
     canUploadItemMaster canUploadClosingStock itemMasterFile closingStockFile selectedLocation st =
     (if userRole = Auditor \<and> canUploadClosingStock \<and> closingStockFile \<noteq> None \<and>
         (selectedLocation = [] \<or> selectedLocation = ''default'')
      then ([ToastError ''Please select a location''], st)
      else
        (case importItemMaster processCSV processItemMasterData canUploadItemMaster
                itemMasterFile st of
           Inl stopped \<Rightarrow> stopped
         | Inr (ts, st1) \<Rightarrow>
             (case importClosingStock processCSV processClosingStockData userRole
                     canUploadClosingStock closingStockFile selectedLocation (itemMaster st) st1 of
                (ts', st2) \<Rightarrow> (ts @ ts', st2))))"

section \<open>Status rule\<close>

text \<open>The three-way rule as the specification words it, to compare the code with.\<close>

definition deriveStatus :: "int \<Rightarrow> int option \<Rightarrow> status" where
  "deriveStatus systemQty physicalQty =
     (case physicalQty of
        None \<Rightarrow> Pending
      | Some p \<Rightarrow> if p = systemQty then Matched else Discrepancy)"

section \<open>Observations and example data\<close>

text \<open>The stored rows under a composite key (SKU, location), used to state what was written.\<close>

definition stored_rows :: "backend \<Rightarrow> string \<Rightarrow> string \<Rightarrow> dbItem list" where
  "stored_rows b s l =
     map snd (filter (\<lambda>(i, x). db_sku x = Some s \<and> db_location x = l) (inventory_items b))"

text \<open>
  An empty database, two locations, one catalog record as the provider holds it (read from
  the database, its physical quantity \<open>null\<close>), and the state after its import.
\<close>

definition ex_backend :: backend where
  "ex_backend =
     \<lparr> inventory_items = [], next_id = 0, uuid_gen = (\<lambda>n. ''row'' @ replicate n (CHR ''i'')),
       write_error = None, read_error = False \<rparr>"

definition ex_loc1 :: Location where
  "ex_loc1 = \<lparr> loc_id = ''id1'', loc_name = ''L1'', loc_description = None, loc_active = Some True \<rparr>"

definition ex_loc2 :: Location where
  "ex_loc2 = \<lparr> loc_id = ''id2'', loc_name = ''L2'', loc_description = None, loc_active = Some True \<rparr>"

definition ex_locations :: "Location list" where
  "ex_locations = [ex_loc1, ex_loc2]"

definition ex_item :: InventoryItem where
  "ex_item =
     \<lparr> item_id = ''row'', sku = ''A1'', name = Some ''Widget'', category = None, location = ''L1'',
       systemQuantity = 3, physicalQuantity = Null, status = Some Pending, lastAudited = None,
       item_notes = None, companyId = None \<rparr>"

definition ex_state :: InventoryState where
  "ex_state =
     \<lparr> itemMaster = [], closingStock = [], auditedItems = [], locations = ex_locations,
       backend = ex_backend \<rparr>"

definition ex_catalog :: InventoryState where
  "ex_catalog =
     \<lparr> itemMaster = [ex_item], closingStock = [], auditedItems = [], locations = ex_locations,
       backend = ex_backend\<lparr> inventory_items := [(''row'', inventoryItemToDb ex_item)],
                            next_id := 1 \<rparr> \<rparr>"

text \<open>The state in which that row has been counted \<open>n\<close> times at time \<open>t1\<close>, with status \<open>s\<close>.\<close>

definition ex_counted_item :: "int \<Rightarrow> status \<Rightarrow> InventoryItem" where
  "ex_counted_item n s =
     ex_item\<lparr> physicalQuantity := Num n, status := Some s, lastAudited := Some ''t1'' \<rparr>"

definition ex_counted :: "int \<Rightarrow> status \<Rightarrow> InventoryState" where
  "ex_counted n s =
     \<lparr> itemMaster = [ex_counted_item n s], closingStock = [ex_counted_item n s],
       auditedItems = [ex_counted_item n s], locations = ex_locations,
       backend = ex_backend\<lparr> inventory_items := [(''row'', inventoryItemToDb (ex_counted_item n s))],
                            next_id := 1 \<rparr> \<rparr>"

text \<open>The same catalog after quantity imports, a closing-stock row, and two users.\<close>

definition ex_catalog_zero :: InventoryState where
  "ex_catalog_zero =
     \<lparr> itemMaster = [ex_item\<lparr> systemQuantity := 0 \<rparr>], closingStock = [], auditedItems = [],
       locations = ex_locations,
       backend = ex_backend\<lparr> inventory_items :=
                              [(''row'', inventoryItemToDb (ex_item\<lparr> systemQuantity := 0 \<rparr>))],
                            next_id := 1 \<rparr> \<rparr>"

definition ex_closing_row :: InventoryItem where
  "ex_closing_row =
     \<lparr> item_id = [], sku = ''A1'', name = None, category = None, location = ''L1'',
       systemQuantity = 50, physicalQuantity = Undefined, status = None, lastAudited = None,
       item_notes = None, companyId = None \<rparr>"

definition ex_catalog_50 :: InventoryState where
  "ex_catalog_50 =
     \<lparr> itemMaster = [ex_item\<lparr> systemQuantity := 50 \<rparr>], closingStock = [], auditedItems = [],
       locations = ex_locations,
       backend = ex_backend\<lparr> inventory_items :=
                              [(''row'', inventoryItemToDb (ex_item\<lparr> systemQuantity := 50 \<rparr>))],
                            next_id := 1 \<rparr> \<rparr>"

definition ex_admin :: UserProfile where
  "ex_admin =
     \<lparr> user_id = ''u0'', email = ''admin@example.org'', role = Admin, user_name = ''Adm'',
       assignedLocations = None \<rparr>"

definition ex_auditor :: UserProfile where
  "ex_auditor =
     \<lparr> user_id = ''u1'', email = ''auditor@example.org'', role = Auditor, user_name = ''Ann'',
       assignedLocations = Some [''id2''] \<rparr>"


definition ex_restocked :: InventoryState where
  "ex_restocked =
     \<lparr> itemMaster = [(ex_counted_item 3 Matched)\<lparr> systemQuantity := 50 \<rparr>],
       closingStock = [(ex_counted_item 3 Matched)\<lparr> systemQuantity := 50 \<rparr>],
       auditedItems = [ex_counted_item 3 Matched], locations = ex_locations,
       backend = ex_backend\<lparr> inventory_items :=
                              [(''row'', inventoryItemToDb
                                           ((ex_counted_item 3 Matched)\<lparr> systemQuantity := 50 \<rparr>))],
                            next_id := 1 \<rparr> \<rparr>"

definition ex_counted_import :: InventoryState where
  "ex_counted_import =
     \<lparr> itemMaster = [ex_item\<lparr> physicalQuantity := Num 3 \<rparr>],
       closingStock = [ex_item\<lparr> physicalQuantity := Num 3 \<rparr>], auditedItems = [],
       locations = ex_locations,
       backend = ex_backend\<lparr> inventory_items :=
                              [(''row'', inventoryItemToDb (ex_item\<lparr> physicalQuantity := Num 3 \<rparr>))],
                            next_id := 1 \<rparr> \<rparr>"

text \<open>A state with a second catalog row at the other location.\<close>

definition ex_item2 :: InventoryItem where
  "ex_item2 =
     \<lparr> item_id = ''rowi'', sku = ''B2'', name = Some ''Gadget'', category = None, location = ''L2'',
       systemQuantity = 5, physicalQuantity = Null, status = Some Pending, lastAudited = None,
       item_notes = None, companyId = None \<rparr>"

definition ex_two :: InventoryState where
  "ex_two =
     \<lparr> itemMaster = [ex_counted_item 3 Matched, ex_item2],
       closingStock = [ex_counted_item 3 Matched],
       auditedItems = [ex_counted_item 3 Matched], locations = ex_locations,
       backend = ex_backend\<lparr> inventory_items :=
                              [(''row'', inventoryItemToDb (ex_counted_item 3 Matched)),
                               (''rowi'', inventoryItemToDb ex_item2)],
                            next_id := 2 \<rparr> \<rparr>"

subsection \<open>A state that mirrors its database\<close>

text \<open>
  The provider's state as \<open>loadData\<close> and every successful audit operation leave it: the
  master and audited lists are what the reads return, the reads succeed, and every row was
  written through \<open>inventoryItemToDb\<close>, which always writes a SKU.
\<close>

definition mirrors :: "InventoryState \<Rightarrow> bool" where
  "mirrors st \<longleftrightarrow>
     itemMaster st = getItemMaster (backend st) \<and>
     auditedItems st = getAuditedItems (backend st) \<and>
     \<not> read_error (backend st) \<and>
     (\<forall>(i, x) \<in> set (inventory_items (backend st)). db_sku x \<noteq> None)"

subsection \<open>The record-status invariant\<close>

text \<open>
  The invariant of the data model, on a record and on a stored row. A physical quantity is
  present when it is a number.
\<close>

definition record_status_invariant :: "InventoryItem \<Rightarrow> bool" where
  "record_status_invariant r \<longleftrightarrow>
     (case physicalQuantity r of
        Num n \<Rightarrow> status r = Some Matched \<or> status r = Some Discrepancy
      | _ \<Rightarrow> status r = Some Pending)"

definition row_status_invariant :: "dbItem \<Rightarrow> bool" where
  "row_status_invariant x \<longleftrightarrow>
     (physical_quantity x \<noteq> None \<longrightarrow> db_status x = Matched \<or> db_status x = Discrepancy) \<and>
     (physical_quantity x = None \<longrightarrow> db_status x = Pending)"

text \<open>The invariant on a state: on every stored row and on every record of the three lists.\<close>

definition status_invariant :: "InventoryState \<Rightarrow> bool" where
  "status_invariant st \<longleftrightarrow>
     (\<forall>(i, x) \<in> set (inventory_items (backend st)). row_status_invariant x) \<and>
     (\<forall>r \<in> set (itemMaster st @ closingStock st @ auditedItems st). record_status_invariant r)"

section \<open>Lemmas about lists\<close>

lemma filter_map_unchanged:
  "\<forall>x \<in> set xs. (P x \<longrightarrow> g x = x) \<and> (\<not> P x \<longrightarrow> \<not> P (g x)) \<Longrightarrow>
   filter P (map g xs) = filter P xs"
  by (induction xs) auto

lemma find_map_comp: "find P (map f xs) = map_option f (find (\<lambda>x. P (f x)) xs)"
  by (induction xs) simp_all

lemma find_Some_mem: "find P xs = Some x \<Longrightarrow> x \<in> set xs \<and> P x"
  by (induction xs) (auto split: if_splits)

lemma find_None_iff2: "find P xs = None \<longleftrightarrow> (\<forall>x \<in> set xs. \<not> P x)"
  by (induction xs) auto

lemma sum_list_indicator_zero:
  "a \<notin> set locs \<Longrightarrow> sum_list (map (\<lambda>l. if a = l then 1 else 0) locs) = (0::int)"
  by (induction locs) auto

lemma sum_list_indicator:
  "distinct locs \<Longrightarrow> a \<in> set locs \<Longrightarrow>
   sum_list (map (\<lambda>l. if a = l then 1 else 0) locs) = (1::int)"
  by (induction locs) (auto simp: sum_list_indicator_zero)

lemma length_partition:
  "distinct locs \<Longrightarrow> set (map g xs) \<subseteq> set locs \<Longrightarrow>
   int (length xs) = sum_list (map (\<lambda>l. int (length (filter (\<lambda>x. g x = l) xs))) locs)"
proof (induction xs)
  case Nil
  then show ?case by simp
next
  case (Cons x xs)
  have "sum_list (map (\<lambda>l. int (length (filter (\<lambda>y. g y = l) (x # xs)))) locs)
        = sum_list (map (\<lambda>l. (if g x = l then 1 else 0)
                              + int (length (filter (\<lambda>y. g y = l) xs))) locs)"
    by (intro arg_cong [where f = sum_list] map_cong) auto
  also have "\<dots> = sum_list (map (\<lambda>l. if g x = l then 1 else 0) locs)
                 + sum_list (map (\<lambda>l. int (length (filter (\<lambda>y. g y = l) xs))) locs)"
    by (simp add: sum_list_addf)
  also have "\<dots> = 1 + int (length xs)"
    using Cons by (simp add: sum_list_indicator)
  finally show ?case by simp
qed

lemma distinct_map_coarser:
  assumes "distinct (map f xs)"
    and "\<forall>x \<in> set xs. \<forall>y \<in> set xs. g x = g y \<longrightarrow> f x = f y"
  shows "distinct (map g xs)"
proof -
  from assms(1) have d: "distinct xs" and i: "inj_on f (set xs)"
    by (simp_all add: distinct_map)
  have "inj_on g (set xs)"
  proof (rule inj_onI)
    fix x y assume xy: "x \<in> set xs" "y \<in> set xs" "g x = g y"
    with assms(2) have "f x = f y" by blast
    with i xy show "x = y" by (rule_tac inj_onD)
  qed
  with d show ?thesis by (simp only: distinct_map simp_thms)
qed

lemma find_filter_conj: "find P (filter Q xs) = find (\<lambda>x. Q x \<and> P x) xs"
  by (induction xs) auto

lemma find_cong_set: "(\<And>x. x \<in> set xs \<Longrightarrow> P x = Q x) \<Longrightarrow> find P xs = find Q xs"
  by (induction xs) auto

lemma find_map_same:
  "(\<And>x. x \<in> set xs \<Longrightarrow> P (g x) = P x) \<Longrightarrow> find P (map g xs) = map_option g (find P xs)"
  by (induction xs) auto

lemma find_select:
  "find P (map f (filter N xs)) = map_option f (find (\<lambda>x. N x \<and> P (f x)) xs)"
  by (simp add: find_map_comp find_filter_conj)

text \<open>
  Locations that are among the provider's locations, whose ids are distinct, resolve by id to
  themselves.
\<close>

lemma accessible_resolves:
  assumes "set acc \<subseteq> set locs" and "distinct (map loc_id locs)"
  shows "\<forall>a \<in> set acc. \<forall>l. find (\<lambda>loc. loc_id loc = loc_id a) locs = Some l \<longrightarrow> loc_name l = loc_name a"
proof (intro ballI allI impI)
  fix a l assume a: "a \<in> set acc" and f: "find (\<lambda>loc. loc_id loc = loc_id a) locs = Some l"
  from f have "l \<in> set locs" "loc_id l = loc_id a"
    using find_Some_mem [of _ locs l] by auto
  moreover from a assms(1) have "a \<in> set locs" by blast
  ultimately have "l = a"
    using assms(2) by (auto simp: distinct_map inj_on_def)
  then show "loc_name l = loc_name a" by simp
qed

section \<open>Lemmas about the persistence model\<close>

lemma conflicts_refl [simp]: "conflicts r r"
  by (simp add: conflicts_def)

lemma upsert_row_cases:
  "(i, x) \<in> set (inventory_items (upsert_row b r)) \<Longrightarrow>
     x = r \<or> (\<not> conflicts r x \<and> (i, x) \<in> set (inventory_items b))"
  by (auto simp: upsert_row_def split: if_splits)

lemma upsert_row_has: "\<exists>i. (i, r) \<in> set (inventory_items (upsert_row b r))"
  by (force simp: upsert_row_def)

lemma upsert_row_other:
  "(i, x) \<in> set (inventory_items b) \<Longrightarrow> \<not> conflicts r x \<Longrightarrow>
     (i, x) \<in> set (inventory_items (upsert_row b r))"
  by (force simp: upsert_row_def)

lemma upsert_row_flags [simp]:
  "write_error (upsert_row b r) = write_error b"
  "read_error (upsert_row b r) = read_error b"
  "uuid_gen (upsert_row b r) = uuid_gen b"
  by (simp_all add: upsert_row_def)

lemma stored_rows_upsert_row:
  "set (stored_rows (upsert_row b r) s l) =
     (if db_sku r = Some s \<and> db_location r = l then {r} else set (stored_rows b s l))"
proof (cases "db_sku r = Some s \<and> db_location r = l")
  case True
  have "\<And>x. x \<in> set (stored_rows (upsert_row b r) s l) \<Longrightarrow> x = r"
    using True by (auto simp: stored_rows_def conflicts_def dest!: upsert_row_cases)
  moreover have "r \<in> set (stored_rows (upsert_row b r) s l)"
    using True upsert_row_has [of r b] by (force simp: stored_rows_def)
  ultimately show ?thesis using True by auto
next
  case False
  have "\<And>x. x \<in> set (stored_rows (upsert_row b r) s l) \<Longrightarrow> x \<in> set (stored_rows b s l)"
    using False by (auto simp: stored_rows_def conflicts_def dest!: upsert_row_cases)
  moreover have "\<And>x. x \<in> set (stored_rows b s l) \<Longrightarrow> x \<in> set (stored_rows (upsert_row b r) s l)"
    using False by (auto simp: stored_rows_def conflicts_def intro!: upsert_row_other)
  ultimately show ?thesis using False by auto
qed

lemma stored_rows_upsert_row_other:
  assumes "\<not> (db_sku r = Some s \<and> db_location r = l)"
  shows "stored_rows (upsert_row b r) s l = stored_rows b s l"
proof -
  have "filter (\<lambda>(i, x). db_sku x = Some s \<and> db_location x = l)
          (map (\<lambda>(i, x). if conflicts r x then (i, r) else (i, x)) (inventory_items b))
        = filter (\<lambda>(i, x). db_sku x = Some s \<and> db_location x = l) (inventory_items b)"
    using assms by (intro filter_map_unchanged) (auto simp: conflicts_def split: if_splits)
  then show ?thesis
    using assms by (auto simp: stored_rows_def upsert_row_def)
qed

lemma stored_rows_foldl:
  "set (stored_rows (foldl upsert_row b rs) s l) =
     (case find (\<lambda>r. db_sku r = Some s \<and> db_location r = l) (rev rs) of
        Some r \<Rightarrow> {r} | None \<Rightarrow> set (stored_rows b s l))"
  by (induction rs rule: rev_induct) (simp_all add: stored_rows_upsert_row)

lemma foldl_upsert_row_flags [simp]:
  "write_error (foldl upsert_row b rs) = write_error b"
  "read_error (foldl upsert_row b rs) = read_error b"
  "uuid_gen (foldl upsert_row b rs) = uuid_gen b"
  by (induction rs rule: rev_induct) simp_all

text \<open>Upserting rows whose keys are all stored replaces rows in place.\<close>

lemma foldl_upsert_row_present:
  assumes "\<forall>r \<in> set rs. \<exists>(i, x) \<in> set (inventory_items b). conflicts r x"
  shows "foldl upsert_row b rs =
           b\<lparr> inventory_items :=
                 map (\<lambda>(i, x). (i, case find (\<lambda>r. conflicts r x) (rev rs) of
                                      None \<Rightarrow> x | Some r \<Rightarrow> r))
                     (inventory_items b) \<rparr>"
  using assms
proof (induction rs rule: rev_induct)
  case Nil
  then show ?case by simp
next
  case (snoc r rs)
  let ?ov = "\<lambda>rs (i, x). (i, case find (\<lambda>r. conflicts r x) (rev rs) of None \<Rightarrow> x | Some r \<Rightarrow> r)"
  from snoc have ih: "foldl upsert_row b rs = b\<lparr> inventory_items := map (?ov rs) (inventory_items b) \<rparr>"
    by simp
  from snoc.prems obtain i x where ix: "(i, x) \<in> set (inventory_items b)" "conflicts r x"
    by auto
  have key: "conflicts r (snd (?ov rs (j, y))) = conflicts r y" for j y
    by (auto simp: conflicts_def split: option.splits dest!: find_Some_mem)
  have ex: "\<exists>(i, x) \<in> set (map (?ov rs) (inventory_items b)). conflicts r x"
    using ix key [of i x] by (force simp: image_iff)
  have m: "map (\<lambda>(i, x). if conflicts r x then (i, r) else (i, x))
             (map (?ov rs) (inventory_items b))
           = map (?ov (rs @ [r])) (inventory_items b)"
    using key by (auto split: option.splits)
  have "foldl upsert_row b (rs @ [r]) = upsert_row (foldl upsert_row b rs) r"
    by simp
  also have "\<dots> = upsert_row (b\<lparr> inventory_items := map (?ov rs) (inventory_items b) \<rparr>) r"
    by (simp only: ih)
  also have "\<dots> = b\<lparr> inventory_items :=
                       map (\<lambda>(i, x). if conflicts r x then (i, r) else (i, x))
                         (map (?ov rs) (inventory_items b)) \<rparr>"
    using ex by (simp add: upsert_row_def)
  finally show ?case by (simp only: m)
qed

lemma upsert_row_distinct:
  assumes "distinct (map (\<lambda>(i, x). (db_sku x, db_location x)) (inventory_items b))"
  shows "distinct (map (\<lambda>(i, x). (db_sku x, db_location x)) (inventory_items (upsert_row b r)))"
proof (cases "\<exists>(i, x) \<in> set (inventory_items b). conflicts r x")
  case True
  have "map (\<lambda>(i, x). (db_sku x, db_location x))
          (map (\<lambda>(i, x). if conflicts r x then (i, r) else (i, x)) (inventory_items b))
        = map (\<lambda>(i, x). (db_sku x, db_location x)) (inventory_items b)"
    by (auto simp: conflicts_def)
  with assms have "distinct (map (\<lambda>(i, x). (db_sku x, db_location x))
          (map (\<lambda>(i, x). if conflicts r x then (i, r) else (i, x)) (inventory_items b)))"
    by (simp only:)
  with True show ?thesis by (simp add: upsert_row_def del: map_map)
next
  case False
  then have "(db_sku r, db_location r)
               \<notin> set (map (\<lambda>(i, x). (db_sku x, db_location x)) (inventory_items b))"
    by (auto simp: conflicts_def)
  with False assms show ?thesis by (simp add: upsert_row_def)
qed

lemma foldl_upsert_row_distinct:
  "distinct (map (\<lambda>(i, x). (db_sku x, db_location x)) (inventory_items b)) \<Longrightarrow>
   distinct (map (\<lambda>(i, x). (db_sku x, db_location x)) (inventory_items (foldl upsert_row b rs)))"
  by (induction rs rule: rev_induct) (simp_all add: upsert_row_distinct)

lemma find_stored_rows:
  "find (\<lambda>(i, x). db_sku x = Some s \<and> db_location x = l) (inventory_items b) = Some (i, x)
     \<Longrightarrow> x \<in> set (stored_rows b s l)"
  by (force simp: stored_rows_def dest: find_Some_mem)

lemma stored_rows_find:
  "stored_rows b s l \<noteq> [] \<Longrightarrow>
   \<exists>i x. find (\<lambda>(i, x). db_sku x = Some s \<and> db_location x = l) (inventory_items b) = Some (i, x)"
  by (cases "find (\<lambda>(i, x). db_sku x = Some s \<and> db_location x = l) (inventory_items b)")
     (auto simp: stored_rows_def find_None_iff2 filter_empty_conv)

lemma stored_rows_key:
  "x \<in> set (stored_rows b s l) \<Longrightarrow> db_sku x = Some s \<and> db_location x = l"
  by (auto simp: stored_rows_def)

lemma stored_rows_mem:
  "(i, x) \<in> set (inventory_items b) \<Longrightarrow> db_sku x = Some s \<Longrightarrow> db_location x = l \<Longrightarrow>
   x \<in> set (stored_rows b s l)"
  by (force simp: stored_rows_def)

lemma inventoryItemToDb_key [simp]:
  "db_sku (inventoryItemToDb i) = Some (sku i)" "db_location (inventoryItemToDb i) = location i"
  by (simp_all add: inventoryItemToDb_def)

lemma roundtrip_row:
  "db_sku x = Some s \<Longrightarrow>
   inventoryItemToDb ((dbToInventoryItem (i, x))\<lparr> systemQuantity := q \<rparr>)
     = x\<lparr> system_quantity := q \<rparr>"
  by (cases "physical_quantity x") (simp_all add: inventoryItemToDb_def dbToInventoryItem_def)

lemma getItemMaster_eq:
  "\<not> read_error b \<Longrightarrow>
   getItemMaster b
     = map dbToInventoryItem (filter (\<lambda>(i, x). db_sku x \<noteq> None) (inventory_items b))"
  by (simp add: getItemMaster_def select_all_def)

lemma getAuditedItems_eq:
  "\<not> read_error b \<Longrightarrow>
   getAuditedItems b
     = map dbToInventoryItem (filter (\<lambda>(i, x). last_audited x \<noteq> None) (inventory_items b))"
  by (simp add: getAuditedItems_def select_all_def)

lemma find_getItemMaster:
  assumes "\<not> read_error b"
  shows "find (\<lambda>e. sku e = s \<and> location e = l) (getItemMaster b)
           = map_option dbToInventoryItem
               (find (\<lambda>(i, x). db_sku x = Some s \<and> db_location x = l) (inventory_items b))"
proof -
  have "(\<lambda>ix. (case ix of (i, x) \<Rightarrow> db_sku x \<noteq> None) \<and>
              sku (dbToInventoryItem ix) = s \<and> location (dbToInventoryItem ix) = l)
        = (\<lambda>(i, x). db_sku x = Some s \<and> db_location x = l)"
    by (auto simp: fun_eq_iff dbToInventoryItem_def)
  then show ?thesis
    using assms
    by (simp add: getItemMaster_def select_all_def find_map_comp find_filter_conj)
qed

text \<open>The catalog record a barcode resolves to keeps its place when its row is rewritten.\<close>

lemma find_master_after_upsert:
  assumes "\<not> read_error b"
    and "find (\<lambda>item. item_id item = barcode \<or> sku item = barcode) (getItemMaster b) = Some m"
    and "db_sku r = Some (sku m)" and "db_location r = location m"
  shows "\<exists>i. find (\<lambda>item. item_id item = barcode \<or> sku item = barcode)
               (getItemMaster (upsert_row b r)) = Some (dbToInventoryItem (i, r))"
proof -
  let ?P = "\<lambda>item. item_id item = barcode \<or> sku item = barcode"
  let ?Q = "\<lambda>ix. (case ix of (i, x) \<Rightarrow> db_sku x \<noteq> None) \<and> ?P (dbToInventoryItem ix)"
  let ?g = "\<lambda>(i, x). if conflicts r x then (i, r) else (i, x)"
  have "find ?P (getItemMaster b) = map_option dbToInventoryItem (find ?Q (inventory_items b))"
    by (simp only: getItemMaster_eq [OF assms(1)] find_select)
  with assms(2) obtain ix where
    f: "find ?Q (inventory_items b) = Some ix" "m = dbToInventoryItem ix"
    by auto
  obtain i x where ix: "ix = (i, x)" by (cases ix)
  from f ix have mem: "(i, x) \<in> set (inventory_items b)" and nn: "db_sku x \<noteq> None"
    using find_Some_mem [of ?Q "inventory_items b" ix] by auto
  from f(2) ix nn assms(3,4) have c: "conflicts r x"
    by (auto simp: conflicts_def dbToInventoryItem_def)
  with mem have ex: "\<exists>(i, x) \<in> set (inventory_items b). conflicts r x" by blast
  have "?Q (?g jy) = ?Q jy" for jy
    by (cases jy) (auto simp: conflicts_def dbToInventoryItem_def)
  then have "find ?Q (map ?g (inventory_items b)) = map_option ?g (find ?Q (inventory_items b))"
    by (intro find_map_same)
  with f(1) ix c have q: "find ?Q (map ?g (inventory_items b)) = Some (i, r)" by simp
  have r: "\<not> read_error (upsert_row b r)" using assms(1) by simp
  have t: "inventory_items (upsert_row b r) = map ?g (inventory_items b)"
    using ex by (simp add: upsert_row_def)
  have "find ?P (getItemMaster (upsert_row b r))
          = map_option dbToInventoryItem (find ?Q (map ?g (inventory_items b)))"
    by (simp only: getItemMaster_eq [OF r] find_select t)
  with q show ?thesis by (intro exI [of _ i]) simp
qed

text \<open>The audited record of a key, after a row with an audit time was written under it.\<close>

lemma find_audited_after_upsert:
  assumes "\<not> read_error b"
    and "\<forall>(i, x) \<in> set (inventory_items b). db_sku x \<noteq> None"
    and "db_sku r = Some s" and "db_location r = l" and "last_audited r \<noteq> None"
  shows "\<exists>i. find (\<lambda>a. sku a = s \<and> location a = l) (getAuditedItems (upsert_row b r))
               = Some (dbToInventoryItem (i, r))"
proof -
  let ?b = "upsert_row b r"
  let ?P = "\<lambda>a. sku a = s \<and> location a = l"
  let ?Q = "\<lambda>ix. (case ix of (i, x) \<Rightarrow> last_audited x \<noteq> None) \<and> ?P (dbToInventoryItem ix)"
  have nn: "db_sku x \<noteq> None" if "(i, x) \<in> set (inventory_items ?b)" for i x
    using upsert_row_cases [OF that] assms(2,3) by auto
  have rows: "set (stored_rows ?b s l) = {r}"
    using assms(3,4) by (simp add: stored_rows_upsert_row)
  from upsert_row_has [of r b] obtain k where k: "(k, r) \<in> set (inventory_items ?b)" by blast
  have "?Q (k, r)" using assms(3-5) by (simp add: dbToInventoryItem_def)
  with k obtain ix where f: "find ?Q (inventory_items ?b) = Some ix"
    by (cases "find ?Q (inventory_items ?b)") (auto simp: find_None_iff2)
  obtain i x where ix: "ix = (i, x)" by (cases ix)
  from f ix have mem: "(i, x) \<in> set (inventory_items ?b)" and q: "?Q (i, x)"
    using find_Some_mem [of ?Q "inventory_items ?b" ix] by auto
  from nn [OF mem] q have "db_sku x = Some s" "db_location x = l"
    by (auto simp: dbToInventoryItem_def)
  from stored_rows_mem [OF mem this] rows have "x = r" by simp
  have r: "\<not> read_error ?b" using assms(1) by simp
  have "find ?P (getAuditedItems ?b) = map_option dbToInventoryItem (find ?Q (inventory_items ?b))"
    by (simp only: getAuditedItems_eq [OF r] find_select)
  with f ix \<open>x = r\<close> show ?thesis by (intro exI [of _ i]) simp
qed



section \<open>Lemmas about the operations\<close>

lemma updateAuditedItem_Inr:
  assumes "updateAuditedItem now st item = Inr st'"
  shows "backend st' = upsert_row (backend st) (inventoryItemToDb (itemToUpdate now item))"
    and "itemMaster st' = getItemMaster (backend st')"
    and "closingStock st' = getClosingStock (backend st')"
    and "auditedItems st' = getAuditedItems (backend st')"
    and "locations st' = locations st"
  using assms
  by (auto simp: updateAuditedItem_def svc_setAuditedItems_def upsert_def
           split: sum.splits option.splits if_splits)

lemma itemToUpdate_key [simp]:
  "sku (itemToUpdate now item) = sku item"
  "location (itemToUpdate now item) = location item"
  "systemQuantity (itemToUpdate now item) = systemQuantity item"
  by (simp_all add: itemToUpdate_def)

lemma updateAuditedItem_stored:
  assumes "updateAuditedItem now st item = Inr st'"
  shows "set (stored_rows (backend st') (sku item) (location item))
           = {inventoryItemToDb (itemToUpdate now item)}"
  using updateAuditedItem_Inr(1) [OF assms]
  by (simp add: stored_rows_upsert_row)

lemma row_of_itemToUpdate:
  "physicalQuantity item = Num q \<Longrightarrow>
   physical_quantity (inventoryItemToDb (itemToUpdate now item)) = Some q \<and>
   system_quantity (inventoryItemToDb (itemToUpdate now item)) = systemQuantity item \<and>
   db_status (inventoryItemToDb (itemToUpdate now item)) = deriveStatus (systemQuantity item) (Some q)"
  by (auto simp: inventoryItemToDb_def itemToUpdate_def quantityOrZero_def deriveStatus_def)

lemma scannedItem_fields [simp]:
  "sku (scannedItem now0 audited m l) = sku m"
  "location (scannedItem now0 audited m l) = l"
  "systemQuantity (scannedItem now0 audited m l) = systemQuantity m"
  "name (scannedItem now0 audited m l) = name m"
  "physicalQuantity (scannedItem now0 audited m l) = Num (initialPhysicalQuantity audited m l + 1)"
  by (simp_all add: scannedItem_def Let_def)

lemma updateAuditedItem_total:
  "write_error (backend st) = None \<Longrightarrow> name item \<noteq> None \<Longrightarrow>
   \<exists>st'. updateAuditedItem now st item = Inr st'"
  by (simp add: updateAuditedItem_def svc_setAuditedItems_def upsert_def inventoryItemToDb_def
        itemToUpdate_def)

lemma locationCorrection_mismatch:
  assumes "location m \<noteq> l"
    and "(\<exists>u. cu = Some u \<and> role u = Admin) \<or> (\<exists>loc \<in> set acc. loc_name loc = location m)"
  shows "locationCorrection cu acc m l =
           Inr ([ToastWarning (if \<exists>u. cu = Some u \<and> role u = Admin
                               then ''Location mismatch'' else ''Location corrected'')],
                location m)"
  using assms
  by (auto simp: locationCorrection_def find_None_iff2 split: option.splits)

lemma setClosingStock_Inr:
  assumes "setClosingStock st items = Inr st'"
  shows "backend st' = foldl upsert_row (backend st)
                         (map inventoryItemToDb (mergedClosingStock (itemMaster st) items))"
    and "itemMaster st' = getItemMaster (backend st')"
    and "closingStock st' = getClosingStock (backend st')"
    and "auditedItems st' = auditedItems st"
    and "locations st' = locations st"
  using assms
  by (auto simp: setClosingStock_def svc_setClosingStock_def upsert_def mergedClosingStock_def
           split: sum.splits option.splits if_splits)

lemma setItemMaster_Inr:
  assumes "setItemMaster st items = Inr st'"
  shows "backend st' = foldl upsert_row (backend st) (map inventoryItemToDb items)"
    and "itemMaster st' = getItemMaster (backend st')"
    and "closingStock st' = getClosingStock (backend st')"
  using assms
  by (auto simp: setItemMaster_def svc_setItemMaster_def upsert_def
           split: sum.splits option.splits if_splits)

lemma mergeIncomingItem_key [simp]:
  "sku (mergeIncomingItem master i) = sku i" "location (mergeIncomingItem master i) = location i"
  "systemQuantity (mergeIncomingItem master i) = systemQuantity i"
  by (auto simp: mergeIncomingItem_def split: option.splits dest: find_Some_mem)

lemma importItemMaster_Inr:
  assumes "importItemMaster processCSV processItemMasterData True (Some fileText) st = Inr (ts, st')"
  shows "setItemMaster st (processedItems processItemMasterData (processCSV fileText)) = Inr st'"
  using assms
  by (auto simp: importItemMaster_def Let_def split: if_splits sum.splits)

lemma handleImport_master_only:
  assumes "handleImport processCSV processItemMasterData processClosingStockData userRole True
             canUploadClosingStock (Some fileText) None selectedLocation st
           = ([ToastSuccess ''Item master data imported''], st')"
  shows "importItemMaster processCSV processItemMasterData True (Some fileText) st
           = Inr ([ToastSuccess ''Item master data imported''], st')"
  using assms
  by (auto simp: handleImport_def importClosingStock_def importItemMaster_def Let_def
           split: sum.splits if_splits)

lemma audited_keys_at_location:
  assumes "distinct (map (\<lambda>i. (sku i, location i)) audited)"
  shows "card (set (map auditedItemKey (filter (\<lambda>item. location item = l) audited)))
           = length (filter (\<lambda>item. location item = l) audited)"
proof -
  let ?xs = "filter (\<lambda>item. location item = l) audited"
  have "distinct (map (\<lambda>i. (sku i, location i)) ?xs)"
    using assms by (rule distinct_map_filter)
  then have "distinct (map auditedItemKey ?xs)"
    by (rule distinct_map_coarser) (auto simp: auditedItemKey_def)
  then show ?thesis
    using distinct_card [of "map auditedItemKey ?xs"] by simp
qed


text \<open>Merging against a mirror of the database returns the stored row with the new quantity.\<close>

lemma merge_against_mirror:
  assumes "\<not> read_error b"
    and "set (stored_rows b (sku incoming) (location incoming)) = {x}"
  shows "inventoryItemToDb (mergeIncomingItem (getItemMaster b) incoming)
           = x\<lparr> system_quantity := systemQuantity incoming \<rparr>"
proof -
  from assms(2) have "stored_rows b (sku incoming) (location incoming) \<noteq> []" by auto
  from stored_rows_find [OF this] obtain i x' where
    f: "find (\<lambda>(i, x). db_sku x = Some (sku incoming) \<and> db_location x = location incoming)
          (inventory_items b) = Some (i, x')"
    by blast
  from find_stored_rows [OF f] assms(2) have "x' = x" by simp
  moreover from assms(2) have "db_sku x = Some (sku incoming)"
    using stored_rows_key [of x b "sku incoming" "location incoming"] by simp
  ultimately show ?thesis
    using f find_getItemMaster [OF assms(1), of "sku incoming" "location incoming"]
    by (simp add: mergeIncomingItem_def roundtrip_row)
qed

text \<open>The rows stored after a merge-and-upsert, per key of an incoming row.\<close>

lemma stored_after_merge:
  assumes "incoming \<in> set items"
  shows "\<exists>j \<in> set items. sku j = sku incoming \<and> location j = location incoming \<and>
           find (\<lambda>i. sku i = sku incoming \<and> location i = location incoming) (rev items) = Some j \<and>
           set (stored_rows
                  (foldl upsert_row b (map inventoryItemToDb (mergedClosingStock master items)))
                  (sku incoming) (location incoming))
             = {inventoryItemToDb (mergeIncomingItem master j)}"
proof -
  let ?P = "\<lambda>j. sku j = sku incoming \<and> location j = location incoming"
  let ?rows = "map inventoryItemToDb (mergedClosingStock master items)"
  have f: "find (\<lambda>r. db_sku r = Some (sku incoming) \<and> db_location r = location incoming) (rev ?rows)
           = map_option (\<lambda>j. inventoryItemToDb (mergeIncomingItem master j)) (find ?P (rev items))"
    by (simp add: mergedClosingStock_def rev_map find_map_comp comp_def)
  from assms obtain j where j: "find ?P (rev items) = Some j"
    by (cases "find ?P (rev items)") (auto simp: find_None_iff2)
  from j have "j \<in> set items" "sku j = sku incoming" "location j = location incoming"
    using find_Some_mem [of ?P "rev items" j] by auto
  with f j show ?thesis
    by (intro bexI [of _ j]) (simp_all add: stored_rows_foldl)
qed

lemma setClosingStock_iff:
  "setClosingStock st items = Inr st' \<longleftrightarrow>
     (items = [] \<or>
        write_error (backend st) = None \<and>
        (\<forall>i \<in> set items. name (mergeIncomingItem (itemMaster st) i) \<noteq> None)) \<and>
     st' = st\<lparr> backend := foldl upsert_row (backend st)
                             (map inventoryItemToDb (mergedClosingStock (itemMaster st) items)),
               itemMaster := getItemMaster
                              (foldl upsert_row (backend st)
                                 (map inventoryItemToDb (mergedClosingStock (itemMaster st) items))),
               closingStock := getClosingStock
                              (foldl upsert_row (backend st)
                                 (map inventoryItemToDb (mergedClosingStock (itemMaster st) items))) \<rparr>"
  by (cases "write_error (backend st)")
     (auto simp: setClosingStock_def svc_setClosingStock_def upsert_def mergedClosingStock_def
        inventoryItemToDb_def)

text \<open>Against the mirror of its own result, the merge reproduces the stored rows.\<close>

lemma second_merge_noop:
  assumes "\<not> read_error b"
    and b1_def: "b1 = foldl upsert_row b (map inventoryItemToDb (mergedClosingStock master items))"
  shows "foldl upsert_row b1 (map inventoryItemToDb (mergedClosingStock (getItemMaster b1) items)) = b1"
    and "\<forall>i \<in> set items. \<exists>j \<in> set items.
           db_name (inventoryItemToDb (mergeIncomingItem (getItemMaster b1) i))
             = name (mergeIncomingItem master j)"
proof -
  let ?f1 = "\<lambda>j. inventoryItemToDb (mergeIncomingItem master j)"
  let ?f2 = "\<lambda>j. inventoryItemToDb (mergeIncomingItem (getItemMaster b1) j)"
  let ?rows2 = "map inventoryItemToDb (mergedClosingStock (getItemMaster b1) items)"
  have r1: "\<not> read_error b1" using assms(1) by (simp add: b1_def)
  have second: "\<exists>j \<in> set items.
       find (\<lambda>k. sku k = sku i \<and> location k = location i) (rev items) = Some j \<and>
       set (stored_rows b1 (sku i) (location i)) = {?f1 j} \<and>
       ?f2 i = (?f1 j)\<lparr> system_quantity := systemQuantity i \<rparr>"
    if "i \<in> set items" for i
  proof -
    from stored_after_merge [OF that, of b master] obtain j where
      j: "j \<in> set items"
         "find (\<lambda>k. sku k = sku i \<and> location k = location i) (rev items) = Some j"
         "set (stored_rows b1 (sku i) (location i)) = {?f1 j}"
      unfolding b1_def by blast
    from merge_against_mirror [OF r1 j(3)] j show ?thesis by blast
  qed
  show "\<forall>i \<in> set items. \<exists>j \<in> set items. db_name (?f2 i) = name (mergeIncomingItem master j)"
  proof
    fix i assume "i \<in> set items"
    from second [OF this] obtain j where
      "j \<in> set items" "?f2 i = (?f1 j)\<lparr> system_quantity := systemQuantity i \<rparr>" by blast
    then show "\<exists>j \<in> set items. db_name (?f2 i) = name (mergeIncomingItem master j)"
      by (intro bexI [of _ j]) (simp_all add: inventoryItemToDb_def)
  qed
  have present: "\<forall>r \<in> set ?rows2. \<exists>(i, x) \<in> set (inventory_items b1). conflicts r x"
  proof
    fix r assume "r \<in> set ?rows2"
    then obtain i where i: "i \<in> set items" "r = ?f2 i"
      by (auto simp: mergedClosingStock_def)
    from second [OF i(1)] have "stored_rows b1 (sku i) (location i) \<noteq> []" by auto
    then obtain k x where "(k, x) \<in> set (inventory_items b1)"
        "db_sku x = Some (sku i)" "db_location x = location i"
      by (auto simp: stored_rows_def filter_empty_conv)
    with i(2) show "\<exists>(i, x) \<in> set (inventory_items b1). conflicts r x"
      by (force simp: conflicts_def)
  qed
  have same: "(case find (\<lambda>r. conflicts r x) (rev ?rows2) of None \<Rightarrow> x | Some r \<Rightarrow> r) = x"
    if kx: "(k, x) \<in> set (inventory_items b1)" for k x
  proof (cases "find (\<lambda>i. db_sku x = Some (sku i) \<and> db_location x = location i) (rev items)")
    case None
    then show ?thesis
      by (simp add: mergedClosingStock_def rev_map find_map_comp comp_def conflicts_def)
  next
    case (Some i)
    then have i: "i \<in> set items" "db_sku x = Some (sku i)" "db_location x = location i"
      using find_Some_mem [of _ "rev items" i] by auto
    from second [OF i(1)] obtain j where
      j: "find (\<lambda>k. sku k = sku i \<and> location k = location i) (rev items) = Some j"
         "set (stored_rows b1 (sku i) (location i)) = {?f1 j}"
         "?f2 i = (?f1 j)\<lparr> system_quantity := systemQuantity i \<rparr>"
      by blast
    have "find (\<lambda>k. sku k = sku i \<and> location k = location i) (rev items)
          = find (\<lambda>i. db_sku x = Some (sku i) \<and> db_location x = location i) (rev items)"
      using i by (intro find_cong_set) auto
    with j(1) Some have "j = i" by simp
    with j(3) have f2: "?f2 i = ?f1 i" by (simp add: inventoryItemToDb_def)
    from stored_rows_mem [OF kx i(2,3)] j(2) \<open>j = i\<close> have "x = ?f1 i" by simp
    with f2 Some show ?thesis
      by (simp add: mergedClosingStock_def rev_map find_map_comp comp_def conflicts_def)
  qed
  have "map (\<lambda>(i, x). (i, case find (\<lambda>r. conflicts r x) (rev ?rows2) of None \<Rightarrow> x | Some r \<Rightarrow> r))
          (inventory_items b1) = inventory_items b1"
    using same by (intro map_idI) auto
  with foldl_upsert_row_present [OF present]
  show "foldl upsert_row b1 ?rows2 = b1" by simp
qed

text \<open>What a successful scan went through.\<close>

lemma handleItemScan_True:
  assumes "handleItemScan cu acc now0 now st barcode locationId = (True, ts, st')"
  obtains m locationObj ws where
    "locationId \<noteq> []"
    "find (\<lambda>loc. loc_id loc = locationId) (locations st) = Some locationObj"
    "loc_name locationObj \<noteq> []"
    "find (\<lambda>item. item_id item = barcode \<or> sku item = barcode) (itemMaster st) = Some m"
    "locationCorrection cu acc m (loc_name locationObj) = Inr (ws, location m)"
    "updateAuditedItem now st (scannedItem now0 (auditedItems st) m (location m)) = Inr st'"
proof -
  from assms have 1: "locationId \<noteq> []"
    by (auto simp: handleItemScan_def split: if_splits)
  from assms 1 obtain locationObj where
    2: "find (\<lambda>loc. loc_id loc = locationId) (locations st) = Some locationObj"
    by (cases "find (\<lambda>loc. loc_id loc = locationId) (locations st)")
       (auto simp: handleItemScan_def)
  from assms 1 2 have 3: "loc_name locationObj \<noteq> []"
    by (auto simp: handleItemScan_def split: if_splits)
  from assms 1 2 3 obtain m where
    4: "find (\<lambda>item. item_id item = barcode \<or> sku item = barcode) (itemMaster st) = Some m"
    by (cases "find (\<lambda>item. item_id item = barcode \<or> sku item = barcode) (itemMaster st)")
       (auto simp: handleItemScan_def)
  from assms 1 2 3 4 obtain ws l where
    5: "locationCorrection cu acc m (loc_name locationObj) = Inr (ws, l)"
    by (cases "locationCorrection cu acc m (loc_name locationObj)")
       (auto simp: handleItemScan_def)
  from 5 have 6: "l = location m"
    by (auto simp: locationCorrection_def split: if_splits option.splits)
  from assms 1 2 3 4 5 have
    7: "updateAuditedItem now st (scannedItem now0 (auditedItems st) m l) = Inr st'"
    by (auto simp: handleItemScan_def Let_def split: sum.splits)
  show thesis using that 1 2 3 4 5 6 7 by blast
qed



lemma scannedItem_row:
  "db_sku (inventoryItemToDb (itemToUpdate now (scannedItem now0 audited m l))) = Some (sku m)"
  "db_location (inventoryItemToDb (itemToUpdate now (scannedItem now0 audited m l))) = l"
  "last_audited (inventoryItemToDb (itemToUpdate now (scannedItem now0 audited m l))) = Some now"
  "system_quantity (inventoryItemToDb (itemToUpdate now (scannedItem now0 audited m l)))
     = systemQuantity m"
  "physical_quantity (inventoryItemToDb (itemToUpdate now (scannedItem now0 audited m l)))
     = Some (initialPhysicalQuantity audited m l + 1)"
  "db_status (inventoryItemToDb (itemToUpdate now (scannedItem now0 audited m l)))
     = deriveStatus (systemQuantity m) (Some (initialPhysicalQuantity audited m l + 1))"
  using row_of_itemToUpdate [of "scannedItem now0 audited m l" _ now]
  by (simp_all add: inventoryItemToDb_def itemToUpdate_def)

text \<open>
  One successful scan by the handler of the current render, from a state that mirrors its
  database.
\<close>

lemma scan_step:
  assumes "mirrors st"
    and "handleItemScan cu acc now0 now st barcode locationId = (True, ts, st1)"
  shows "\<exists>m m1.
           find (\<lambda>i. item_id i = barcode \<or> sku i = barcode) (itemMaster st) = Some m \<and>
           find (\<lambda>i. item_id i = barcode \<or> sku i = barcode) (itemMaster st1) = Some m1 \<and>
           sku m1 = sku m \<and> location m1 = location m \<and> systemQuantity m1 = systemQuantity m \<and>
           initialPhysicalQuantity (auditedItems st1) m1 (location m1)
             = initialPhysicalQuantity (auditedItems st) m (location m) + 1 \<and>
           mirrors st1 \<and>
           stored_rows (backend st1) (sku m) (location m) \<noteq> [] \<and>
           (\<forall>x \<in> set (stored_rows (backend st1) (sku m) (location m)).
              physical_quantity x
                = Some (initialPhysicalQuantity (auditedItems st) m (location m) + 1) \<and>
              db_status x
                = deriveStatus (systemQuantity m)
                    (Some (initialPhysicalQuantity (auditedItems st) m (location m) + 1)))"
proof -
  let ?P = "\<lambda>i. item_id i = barcode \<or> sku i = barcode"
  from assms(2) obtain m where
    m: "find ?P (itemMaster st) = Some m"
    and u: "updateAuditedItem now st (scannedItem now0 (auditedItems st) m (location m)) = Inr st1"
    by (rule handleItemScan_True)
  let ?r = "inventoryItemToDb (itemToUpdate now (scannedItem now0 (auditedItems st) m (location m)))"
  let ?c = "initialPhysicalQuantity (auditedItems st) m (location m)"
  note r = scannedItem_row [of now now0 "auditedItems st" m "location m"]
  from assms(1) have
    mi: "itemMaster st = getItemMaster (backend st)"
    and re: "\<not> read_error (backend st)"
    and nn: "\<forall>(i, x) \<in> set (inventory_items (backend st)). db_sku x \<noteq> None"
    by (simp_all add: mirrors_def)
  note st1 = updateAuditedItem_Inr [OF u]
  have b1: "backend st1 = upsert_row (backend st) ?r" by (rule st1(1))
  have nn1: "\<forall>(i, x) \<in> set (inventory_items (backend st1)). db_sku x \<noteq> None"
  proof -
    have "db_sku x \<noteq> None" if "(i, x) \<in> set (inventory_items (upsert_row (backend st) ?r))"
      for i x
      using upsert_row_cases [OF that] nn r(1) by auto
    then show ?thesis unfolding b1 by blast
  qed
  have mirror1: "mirrors st1"
    using st1(2,4) re nn1 by (simp add: mirrors_def b1)
  from find_master_after_upsert [OF re _ r(1,2)] m mi obtain i where
    "find ?P (getItemMaster (upsert_row (backend st) ?r)) = Some (dbToInventoryItem (i, ?r))"
    by auto
  then have m1: "find ?P (itemMaster st1) = Some (dbToInventoryItem (i, ?r))"
    by (simp add: st1(2) b1)
  have k1: "sku (dbToInventoryItem (i, ?r)) = sku m"
           "location (dbToInventoryItem (i, ?r)) = location m"
           "systemQuantity (dbToInventoryItem (i, ?r)) = systemQuantity m"
    using r by (simp_all add: dbToInventoryItem_def numberOrZero_def)
  from find_audited_after_upsert [OF re nn r(1,2)] r(3) obtain j where
    "find (\<lambda>a. sku a = sku m \<and> location a = location m)
       (getAuditedItems (upsert_row (backend st) ?r)) = Some (dbToInventoryItem (j, ?r))"
    by auto
  then have a1: "find (\<lambda>a. sku a = sku m \<and> location a = location m) (auditedItems st1)
                  = Some (dbToInventoryItem (j, ?r))"
    by (simp add: st1(4) b1)
  have c1: "initialPhysicalQuantity (auditedItems st1) (dbToInventoryItem (i, ?r))
              (location (dbToInventoryItem (i, ?r))) = ?c + 1"
    using a1 r(5)
    by (simp add: initialPhysicalQuantity_def k1 quantityOrZero_def dbToInventoryItem_def)
  have s: "set (stored_rows (backend st1) (sku m) (location m)) = {?r}"
    using updateAuditedItem_stored [OF u] by simp
  show ?thesis
    using m m1 k1 c1 mirror1 s r(5,6)
    by (intro exI [of _ m] exI [of _ "dbToInventoryItem (i, ?r)"]) auto
qed

text \<open>
  Three successful scans of one barcode in sequence, each by the handler of the render of the
  state the scan before it left: the counts add up.
\<close>

lemma three_scans:
  assumes "mirrors st"
    and "handleItemScan cu1 acc1 t1 u1 st barcode l1 = (True, ts1, st1)"
    and "handleItemScan cu2 acc2 t2 u2 st1 barcode l2 = (True, ts2, st2)"
    and "handleItemScan cu3 acc3 t3 u3 st2 barcode l3 = (True, ts3, st3)"
  shows "\<exists>m. find (\<lambda>i. item_id i = barcode \<or> sku i = barcode) (itemMaster st) = Some m \<and>
           stored_rows (backend st2) (sku m) (location m) \<noteq> [] \<and>
           stored_rows (backend st3) (sku m) (location m) \<noteq> [] \<and>
           (\<forall>x \<in> set (stored_rows (backend st2) (sku m) (location m)).
              physical_quantity x
                = Some (initialPhysicalQuantity (auditedItems st) m (location m) + 2) \<and>
              db_status x
                = deriveStatus (systemQuantity m)
                    (Some (initialPhysicalQuantity (auditedItems st) m (location m) + 2))) \<and>
           (\<forall>x \<in> set (stored_rows (backend st3) (sku m) (location m)).
              physical_quantity x
                = Some (initialPhysicalQuantity (auditedItems st) m (location m) + 3) \<and>
              db_status x
                = deriveStatus (systemQuantity m)
                    (Some (initialPhysicalQuantity (auditedItems st) m (location m) + 3)))"
proof -
  let ?P = "\<lambda>i. item_id i = barcode \<or> sku i = barcode"
  from scan_step [OF assms(1,2)] obtain m m1 where
    a: "find ?P (itemMaster st) = Some m" "find ?P (itemMaster st1) = Some m1"
       "sku m1 = sku m" "location m1 = location m" "systemQuantity m1 = systemQuantity m"
       "initialPhysicalQuantity (auditedItems st1) m1 (location m1)
          = initialPhysicalQuantity (auditedItems st) m (location m) + 1"
       "mirrors st1"
    by blast
  from scan_step [OF a(7) assms(3)] a(2) obtain m2 where
    b: "find ?P (itemMaster st2) = Some m2"
       "sku m2 = sku m1" "location m2 = location m1" "systemQuantity m2 = systemQuantity m1"
       "initialPhysicalQuantity (auditedItems st2) m2 (location m2)
          = initialPhysicalQuantity (auditedItems st1) m1 (location m1) + 1"
       "mirrors st2"
       "stored_rows (backend st2) (sku m1) (location m1) \<noteq> []"
       "\<forall>x \<in> set (stored_rows (backend st2) (sku m1) (location m1)).
          physical_quantity x
            = Some (initialPhysicalQuantity (auditedItems st1) m1 (location m1) + 1) \<and>
          db_status x
            = deriveStatus (systemQuantity m1)
                (Some (initialPhysicalQuantity (auditedItems st1) m1 (location m1) + 1))"
    by auto
  from scan_step [OF b(6) assms(4)] b(1) have
    c: "stored_rows (backend st3) (sku m2) (location m2) \<noteq> []"
       "\<forall>x \<in> set (stored_rows (backend st3) (sku m2) (location m2)).
          physical_quantity x
            = Some (initialPhysicalQuantity (auditedItems st2) m2 (location m2) + 1) \<and>
          db_status x
            = deriveStatus (systemQuantity m2)
                (Some (initialPhysicalQuantity (auditedItems st2) m2 (location m2) + 1))"
    by auto
  have e1: "initialPhysicalQuantity (auditedItems st1) m1 (location m1) + 1
              = initialPhysicalQuantity (auditedItems st) m (location m) + 2"
    using a(6) by simp
  have e2: "initialPhysicalQuantity (auditedItems st2) m2 (location m2) + 1
              = initialPhysicalQuantity (auditedItems st) m (location m) + 3"
    using a(6) b(5) by simp
  note k2 = b(7) [unfolded a(3) a(4)] b(8) [unfolded e1, unfolded a(3) a(4) a(5)]
  note k3 = c(1) [unfolded b(2) b(3), unfolded a(3) a(4)]
            c(2) [unfolded e2, unfolded b(2) b(3) b(4), unfolded a(3) a(4) a(5)]
  show ?thesis
    using a(1) k2 k3 by blast
qed

subsection \<open>Preservation of the record-status invariant\<close>

lemma row_invariant_systemQuantity [simp]:
  "row_status_invariant (inventoryItemToDb (item\<lparr> systemQuantity := q \<rparr>))
     = row_status_invariant (inventoryItemToDb item)"
  by (simp add: row_status_invariant_def inventoryItemToDb_def)












section \<open>The example states, evaluated\<close>

lemmas ex_defs = ex_backend_def ex_locations_def ex_loc1_def ex_loc2_def ex_item_def ex_state_def
  ex_catalog_def ex_counted_def ex_counted_item_def

lemmas user_defs = ex_admin_def ex_auditor_def

lemmas op_defs = updateAuditedItem_def svc_setAuditedItems_def upsert_def upsert_row_def
  inventoryItemToDb_def itemToUpdate_def quantityOrZero_def getItemMaster_def getClosingStock_def
  getAuditedItems_def select_all_def dbToInventoryItem_def numberOrZero_def conflicts_def
  setItemMaster_def svc_setItemMaster_def

lemmas scan_defs = handleItemScan_def locationCorrection_def scannedItem_def
  initialPhysicalQuantity_def stringOr_def addItemToAudit_def stored_rows_def Let_def





lemma ex_scan_third:
  "handleItemScan cu acc now0 ''t1'' (ex_counted 2 Discrepancy) ''A1'' ''id1''
     = (True, [ToastSuccess ''Item scanned - Matched!''], ex_counted 3 Matched)"
  by (simp add: ex_defs op_defs scan_defs)


lemma ex_counted_rows:
  "stored_rows (backend (ex_counted n s)) ''A1'' ''L1'' = [inventoryItemToDb (ex_counted_item n s)]"
  by (simp add: ex_defs stored_rows_def inventoryItemToDb_def)

lemma ex_counted_row_fields:
  "db_status (inventoryItemToDb (ex_counted_item n s)) = s"
  "physical_quantity (inventoryItemToDb (ex_counted_item n s)) = Some n"
  "system_quantity (inventoryItemToDb (ex_counted_item n s)) = 3"
  by (simp_all add: ex_defs inventoryItemToDb_def)

lemmas merge_defs = setClosingStock_def svc_setClosingStock_def mergedClosingStock_def
  mergeIncomingItem_def

lemma ex_closing_import: "setClosingStock ex_catalog [ex_closing_row] = Inr ex_catalog_50"
  by (simp add: ex_defs ex_closing_row_def ex_catalog_50_def op_defs merge_defs)

lemma ex_master_import:
  "importItemMaster (\<lambda>text. [ex_item]) (\<lambda>rows. rows) True (Some ''sku,name,location,quantity'') ex_state
     = Inr ([ToastSuccess ''Item master data imported''], ex_catalog_zero)"
  by (simp add: importItemMaster_def processedItems_def ex_defs ex_catalog_zero_def op_defs)

lemma ex_scan_admin_mismatch:
  "handleItemScan (Some ex_admin) [] now0 ''t1'' ex_catalog ''A1'' ''id2''
     = (True, [ToastWarning ''Location mismatch'',
               ToastWarning ''Item scanned - Discrepancy detected!''], ex_counted 1 Discrepancy)"
  by (simp add: ex_defs user_defs op_defs scan_defs)

lemma ex_scan_auditor_corrected:
  "handleItemScan (Some ex_auditor) [ex_loc1] now0 ''t1'' ex_catalog ''A1'' ''id2''
     = (True, [ToastWarning ''Location corrected'',
               ToastWarning ''Item scanned - Discrepancy detected!''], ex_counted 1 Discrepancy)"
  by (simp add: ex_defs user_defs op_defs scan_defs)

lemma ex_catalog_lookup:
  "find (\<lambda>loc. loc_id loc = ''id2'') (locations ex_catalog) = Some ex_loc2"
  "find (\<lambda>loc. loc_id loc = ''id1'') (locations ex_catalog) = Some ex_loc1"
  "find (\<lambda>item. item_id item = ''A1'' \<or> sku item = ''A1'') (itemMaster ex_catalog) = Some ex_item"
  "location ex_item = ''L1''" "loc_name ex_loc2 = ''L2''" "loc_name ex_loc1 = ''L1''"
  "sku ex_item = ''A1''" "name ex_item = Some ''Widget''"
  "write_error (backend ex_catalog) = None"
  by (simp_all add: ex_defs user_defs)

lemma ex_scan_denied:
  "handleItemScan (Some ex_auditor) [ex_loc2] now0 now ex_catalog ''A1'' ''id2''
     = (False, [ToastError ''Access denied''], ex_catalog)"
  by (simp add: ex_defs user_defs op_defs scan_defs)

lemma ex_manual_3:
  "addItemToAudit now0 ''t1'' ex_catalog ex_item 3 = Inr (ex_counted 3 Matched)"
  by (simp add: ex_defs op_defs scan_defs)

lemma ex_restock: "setClosingStock (ex_counted 3 Matched) [ex_closing_row] = Inr ex_restocked"
  by (simp add: ex_defs ex_closing_row_def ex_restocked_def op_defs merge_defs)

lemma ex_restock_import:
  "handleImport (\<lambda>text. [ex_closing_row]) (\<lambda>rows. rows) (\<lambda>rows l ls. rows) Admin True True
     None (Some ''sku,location,quantity'') ''default'' (ex_counted 3 Matched)
     = ([ToastSuccess ''Closing stock data imported''], ex_restocked)"
proof -
  have "(ex_counted 3 Matched)\<lparr> itemMaster := itemMaster (ex_counted 3 Matched) \<rparr> = ex_counted 3 Matched"
    by simp
  then show ?thesis
    by (simp add: handleImport_def importItemMaster_def importClosingStock_def ex_restock)
qed




lemma ex_camera_denied:
  "onScanSuccess (Some ex_auditor) [ex_loc2] now0 now ex_catalog (ex_counted 1 Discrepancy)
     ''A1'' ''id2'' = (False, [ToastError ''Access denied''], ex_counted 1 Discrepancy)"
  by (simp add: onScanSuccess_def renderedView_def ex_defs user_defs op_defs scan_defs)



lemma ex_update_null:
  "updateAuditedItem ''t1'' ex_catalog ex_item = Inr (ex_counted 0 Discrepancy)"
  by (simp add: ex_defs op_defs)


lemmas invariant_defs = status_invariant_def row_status_invariant_def record_status_invariant_def
  inventoryItemToDb_def


text \<open>
  An imported row that carries a count and the status pending is stored as it is: the
  imports preserve the invariant only for rows that satisfy it.
\<close>

lemma ex_import_counted_row:
  "setItemMaster ex_state [ex_item\<lparr> physicalQuantity := Num 3 \<rparr>] = Inr (ex_counted_import)
   \<and> \<not> status_invariant ex_counted_import"
  by (simp add: ex_defs ex_counted_import_def op_defs invariant_defs)

lemmas summary_defs = getInventorySummary_def getLocationSummary_def countStatuses_def
  countStep_def auditedItemKey_def Let_def

lemma ex_two_summaries:
  "getInventorySummary ex_two
     = \<lparr> totalItems = 2, auditedCount = 1, pendingItems = 1, matched = 1, discrepancies = 0 \<rparr>"
  "getLocationSummary ex_two ''L1''
     = \<lparr> totalItems = 1, auditedCount = 1, pendingItems = 0, matched = 1, discrepancies = 0 \<rparr>"
  "getLocationSummary ex_two ''L2''
     = \<lparr> totalItems = 1, auditedCount = 0, pendingItems = 1, matched = 0, discrepancies = 0 \<rparr>"
  by (simp_all add: ex_two_def ex_item2_def ex_defs summary_defs)

section \<open>The status rule on record writes\<close>

text \<open>
  Claim C1. The three-way status rule does not hold for every record write: the closing-stock
  import writes the merged record with the status it had, whatever the new system quantity.
  The catalog record A1 at L1 with system quantity 3 is counted manually as 3 and stored as
  matched, as the rule says. An admin then imports a closing-stock file whose row for A1 at
  L1 carries quantity 50. The import succeeds, and the row stored and the record in the
  provider's list have system quantity 50, physical quantity 3 and status matched, where
  the rule gives discrepancy. Nor is an absent count always pending: \<open>updateAuditedItem\<close>
  on the catalog record as the provider holds it, whose physical quantity is the database's
  null, stores physical quantity 0 with status discrepancy.
\<close>

theorem closing_stock_import_keeps_status:
  "addItemToAudit ''t0'' ''t1'' ex_catalog ex_item 3 = Inr (ex_counted 3 Matched)
   \<and> map (\<lambda>x. (system_quantity x, physical_quantity x, db_status x))
        (stored_rows (backend (ex_counted 3 Matched)) ''A1'' ''L1'') = [(3, Some 3, Matched)]
   \<and> systemQuantity ex_closing_row = 50
   \<and> handleImport (\<lambda>text. [ex_closing_row]) (\<lambda>rows. rows) (\<lambda>rows l ls. rows) Admin True True
        None (Some ''sku,location,quantity'') ''default'' (ex_counted 3 Matched)
       = ([ToastSuccess ''Closing stock data imported''], ex_restocked)
   \<and> setClosingStock (ex_counted 3 Matched) [ex_closing_row] = Inr ex_restocked
   \<and> map (\<lambda>x. (system_quantity x, physical_quantity x, db_status x))
        (stored_rows (backend ex_restocked) ''A1'' ''L1'') = [(50, Some 3, Matched)]
   \<and> map (\<lambda>r. (systemQuantity r, physicalQuantity r, status r)) (itemMaster ex_restocked)
       = [(50, Num 3, Some Matched)]
   \<and> deriveStatus 50 (Some 3) = Discrepancy
   \<and> physicalQuantity ex_item = Null
   \<and> updateAuditedItem ''t1'' ex_catalog ex_item = Inr (ex_counted 0 Discrepancy)
   \<and> map (\<lambda>x. (system_quantity x, physical_quantity x, db_status x))
        (stored_rows (backend (ex_counted 0 Discrepancy)) ''A1'' ''L1'')
       = [(3, Some 0, Discrepancy)]"
  by (simp add: ex_manual_3 ex_restock ex_restock_import ex_update_null ex_counted_rows
        ex_counted_row_fields)
     (simp add: ex_defs ex_restocked_def ex_closing_row_def stored_rows_def inventoryItemToDb_def
        deriveStatus_def)

section \<open>The record-status invariant under the operations\<close>




section \<open>The location-mismatch policy of the scan\<close>

text \<open>
  Claim C4. When the scanned code resolves to a catalog record whose location differs from
  the selected one, an admin, and a caller with an accessible location of the record's name,
  is not rejected: the first toast is the warning (\<open>Location mismatch\<close> for the admin,
  \<open>Location corrected\<close> otherwise), \<open>updateAuditedItem\<close> is called with the item under
  the record's own location, and when the database accepts the write the scan succeeds, the
  row under the record's location carries the incremented count, and the rows under the
  selected location are as before.
\<close>

theorem location_mismatch_policy:
  assumes "locationId \<noteq> []"
    and "find (\<lambda>loc. loc_id loc = locationId) (locations st) = Some locationObj"
    and "loc_name locationObj \<noteq> []"
    and "find (\<lambda>item. item_id item = barcode \<or> sku item = barcode) (itemMaster st) = Some masterItem"
    and "location masterItem \<noteq> loc_name locationObj"
    and "(\<exists>u. currentUser = Some u \<and> role u = Admin)
         \<or> (\<exists>loc \<in> set userAccessibleLocations. loc_name loc = location masterItem)"
  shows "handleItemScan currentUser userAccessibleLocations now0 now st barcode locationId =
           (case updateAuditedItem now st
                   (scannedItem now0 (auditedItems st) masterItem (location masterItem)) of
              Inl e \<Rightarrow>
                (False,
                 [ToastWarning (if \<exists>u. currentUser = Some u \<and> role u = Admin
                                then ''Location mismatch'' else ''Location corrected''),
                  ToastError ''Scanning Error''], st)
            | Inr st' \<Rightarrow>
                (True,
                 [ToastWarning (if \<exists>u. currentUser = Some u \<and> role u = Admin
                                then ''Location mismatch'' else ''Location corrected''),
                  if initialPhysicalQuantity (auditedItems st) masterItem (location masterItem) + 1
                       = systemQuantity masterItem
                  then ToastSuccess ''Item scanned - Matched!''
                  else ToastWarning ''Item scanned - Discrepancy detected!''], st'))
         \<and> (write_error (backend st) = None \<and> name masterItem \<noteq> None \<longrightarrow>
              fst (handleItemScan currentUser userAccessibleLocations now0 now st barcode locationId)
              \<and> (\<forall>x \<in> set (stored_rows
                              (backend (snd (snd (handleItemScan currentUser userAccessibleLocations
                                                    now0 now st barcode locationId))))
                              (sku masterItem) (location masterItem)).
                     physical_quantity x =
                       Some (initialPhysicalQuantity (auditedItems st) masterItem
                               (location masterItem) + 1)
                     \<and> last_audited x = Some now)
              \<and> stored_rows
                    (backend (snd (snd (handleItemScan currentUser userAccessibleLocations
                                          now0 now st barcode locationId))))
                    (sku masterItem) (location masterItem) \<noteq> []
              \<and> stored_rows
                    (backend (snd (snd (handleItemScan currentUser userAccessibleLocations
                                          now0 now st barcode locationId))))
                    (sku masterItem) (loc_name locationObj)
                  = stored_rows (backend st) (sku masterItem) (loc_name locationObj))"
proof -
  let ?item = "scannedItem now0 (auditedItems st) masterItem (location masterItem)"
  let ?h = "handleItemScan currentUser userAccessibleLocations now0 now st barcode locationId"
  have eq: "?h =
           (case updateAuditedItem now st ?item of
              Inl e \<Rightarrow>
                (False,
                 [ToastWarning (if \<exists>u. currentUser = Some u \<and> role u = Admin
                                then ''Location mismatch'' else ''Location corrected''),
                  ToastError ''Scanning Error''], st)
            | Inr st' \<Rightarrow>
                (True,
                 [ToastWarning (if \<exists>u. currentUser = Some u \<and> role u = Admin
                                then ''Location mismatch'' else ''Location corrected''),
                  if initialPhysicalQuantity (auditedItems st) masterItem (location masterItem) + 1
                       = systemQuantity masterItem
                  then ToastSuccess ''Item scanned - Matched!''
                  else ToastWarning ''Item scanned - Discrepancy detected!''], st'))"
    using assms(1-4) locationCorrection_mismatch [OF assms(5,6)]
    by (simp add: handleItemScan_def Let_def scannedItem_def split: sum.splits)
  have rest: "fst ?h
      \<and> (\<forall>x \<in> set (stored_rows (backend (snd (snd ?h))) (sku masterItem) (location masterItem)).
             physical_quantity x =
               Some (initialPhysicalQuantity (auditedItems st) masterItem (location masterItem) + 1)
             \<and> last_audited x = Some now)
      \<and> stored_rows (backend (snd (snd ?h))) (sku masterItem) (location masterItem) \<noteq> []
      \<and> stored_rows (backend (snd (snd ?h))) (sku masterItem) (loc_name locationObj)
          = stored_rows (backend st) (sku masterItem) (loc_name locationObj)"
    if ok: "write_error (backend st) = None \<and> name masterItem \<noteq> None"
  proof -
    from ok obtain st' where u: "updateAuditedItem now st ?item = Inr st'"
      using updateAuditedItem_total [of st ?item now] by auto
    from eq u have h: "fst ?h" "snd (snd ?h) = st'" by simp_all
    have s: "set (stored_rows (backend st') (sku masterItem) (location masterItem))
               = {inventoryItemToDb (itemToUpdate now ?item)}"
      using updateAuditedItem_stored [OF u] by simp
    have o: "stored_rows (backend st') (sku masterItem) (loc_name locationObj)
               = stored_rows (backend st) (sku masterItem) (loc_name locationObj)"
      using updateAuditedItem_Inr(1) [OF u] assms(5)
      by (simp add: stored_rows_upsert_row_other)
    have r: "physical_quantity (inventoryItemToDb (itemToUpdate now ?item))
               = Some (initialPhysicalQuantity (auditedItems st) masterItem (location masterItem) + 1)
             \<and> last_audited (inventoryItemToDb (itemToUpdate now ?item)) = Some now"
      using row_of_itemToUpdate [of ?item _ now]
      by (simp add: inventoryItemToDb_def itemToUpdate_def)
    show ?thesis using h s o r by auto
  qed
  show ?thesis using eq rest by blast
qed

theorem location_mismatch_policy_witness:
  "''id2'' \<noteq> []
   \<and> find (\<lambda>loc. loc_id loc = ''id2'') (locations ex_catalog) = Some ex_loc2
   \<and> loc_name ex_loc2 \<noteq> []
   \<and> find (\<lambda>item. item_id item = ''A1'' \<or> sku item = ''A1'') (itemMaster ex_catalog) = Some ex_item
   \<and> location ex_item \<noteq> loc_name ex_loc2
   \<and> role ex_admin = Admin
   \<and> loc_name ex_loc1 = location ex_item
   \<and> handleItemScan (Some ex_admin) [] ''t0'' ''t1'' ex_catalog ''A1'' ''id2''
       = (True, [ToastWarning ''Location mismatch'',
                 ToastWarning ''Item scanned - Discrepancy detected!''], ex_counted 1 Discrepancy)
   \<and> handleItemScan (Some ex_auditor) [ex_loc1] ''t0'' ''t1'' ex_catalog ''A1'' ''id2''
       = (True, [ToastWarning ''Location corrected'',
                 ToastWarning ''Item scanned - Discrepancy detected!''], ex_counted 1 Discrepancy)
   \<and> map physical_quantity (stored_rows (backend (ex_counted 1 Discrepancy)) ''A1'' ''L1'') = [Some 1]
   \<and> stored_rows (backend (ex_counted 1 Discrepancy)) ''A1'' ''L2'' = []"
  using
    location_mismatch_policy [where currentUser = "Some ex_admin" and userAccessibleLocations = "[]"
      and ?now0.0 = "''t0''" and now = "''t1''" and st = ex_catalog and barcode = "''A1''"
      and locationId = "''id2''" and locationObj = ex_loc2 and masterItem = ex_item]
    location_mismatch_policy [where currentUser = "Some ex_auditor"
      and userAccessibleLocations = "[ex_loc1]"
      and ?now0.0 = "''t0''" and now = "''t1''" and st = ex_catalog and barcode = "''A1''"
      and locationId = "''id2''" and locationObj = ex_loc2 and masterItem = ex_item]
  by (simp add: ex_catalog_lookup ex_scan_admin_mismatch ex_scan_auditor_corrected
        ex_counted_rows ex_counted_row_fields)
     (simp add: ex_defs user_defs stored_rows_def inventoryItemToDb_def)


section \<open>Access denial\<close>

text \<open>
  Claim C5. A caller who is not an admin scans a code whose catalog record has a location
  that none of the caller's accessible locations has. The location selected is one the
  location picker offers such a caller: none, or the id of an accessible location, which
  resolves to a location of the same name. Then the scan resolves to false and the state,
  database included, is the state before; with a valid selected location the only toast is
  \<open>Access denied\<close>. This holds of \<open>handleItemScan\<close> and of the camera callback of that
  render, whatever the provider's state is by then.
\<close>

theorem access_denied_leaves_state:
  assumes "\<forall>u. currentUser = Some u \<longrightarrow> role u \<noteq> Admin"
    and "find (\<lambda>item. item_id item = barcode \<or> sku item = barcode) (itemMaster rendered)
           = Some masterItem"
    and "\<forall>loc \<in> set userAccessibleLocations. loc_name loc \<noteq> location masterItem"
    and "locationId = [] \<or> (\<exists>a \<in> set userAccessibleLocations. loc_id a = locationId)"
    and "\<forall>a \<in> set userAccessibleLocations. \<forall>l.
           find (\<lambda>loc. loc_id loc = loc_id a) (locations rendered) = Some l
             \<longrightarrow> loc_name l = loc_name a"
  shows "\<not> fst (handleItemScan currentUser userAccessibleLocations now0 now rendered barcode
                   locationId)
         \<and> snd (snd (handleItemScan currentUser userAccessibleLocations now0 now rendered barcode
                        locationId)) = rendered
         \<and> (locationId \<noteq> [] \<and>
            (\<exists>locationObj.
                find (\<lambda>loc. loc_id loc = locationId) (locations rendered) = Some locationObj
                \<and> loc_name locationObj \<noteq> [])
            \<longrightarrow> handleItemScan currentUser userAccessibleLocations now0 now rendered barcode
                  locationId
                  = (False, [ToastError ''Access denied''], rendered))
         \<and> \<not> fst (onScanSuccess currentUser userAccessibleLocations now0 now rendered st barcode
                     locationId)
         \<and> snd (snd (onScanSuccess currentUser userAccessibleLocations now0 now rendered st barcode
                        locationId)) = st"
proof -
  have denied: "\<not> fst (handleItemScan currentUser userAccessibleLocations now0 now s barcode
                         locationId)
         \<and> snd (snd (handleItemScan currentUser userAccessibleLocations now0 now s barcode
                        locationId)) = s
         \<and> (locationId \<noteq> [] \<and>
            (\<exists>locationObj.
                find (\<lambda>loc. loc_id loc = locationId) (locations s) = Some locationObj
                \<and> loc_name locationObj \<noteq> [])
            \<longrightarrow> handleItemScan currentUser userAccessibleLocations now0 now s barcode locationId
                  = (False, [ToastError ''Access denied''], s))"
    if m: "itemMaster s = itemMaster rendered" and l: "locations s = locations rendered" for s
  proof -
    have c: "locationCorrection currentUser userAccessibleLocations masterItem n
               = Inl (ToastError ''Access denied'')"
      if "n \<noteq> location masterItem" for n
      using that assms(1,3)
      by (cases currentUser) (auto simp: locationCorrection_def find_None_iff2 split: option.splits)
    show ?thesis
    proof (cases "locationId = []")
      case True
      then show ?thesis by (simp add: handleItemScan_def)
    next
      case False
      show ?thesis
      proof (cases "find (\<lambda>loc. loc_id loc = locationId) (locations s)")
        case None
        with False show ?thesis by (simp add: handleItemScan_def)
      next
        case (Some locationObj)
        from False assms(4) obtain a where
          a: "a \<in> set userAccessibleLocations" "loc_id a = locationId" by blast
        with Some assms(5) l have "loc_name locationObj = loc_name a" by auto
        with a(1) assms(3) have "loc_name locationObj \<noteq> location masterItem" by auto
        from c [OF this] False Some assms(2) m show ?thesis
          by (simp add: handleItemScan_def Let_def)
      qed
    qed
  qed
  have v: "itemMaster (renderedView rendered st) = itemMaster rendered"
          "locations (renderedView rendered st) = locations rendered"
    by (simp_all add: renderedView_def)
  from denied [OF v]
  have "\<not> fst (handleItemScan currentUser userAccessibleLocations now0 now
                  (renderedView rendered st) barcode locationId)"
    by blast
  then have "\<not> fst (onScanSuccess currentUser userAccessibleLocations now0 now rendered st barcode
                       locationId)
        \<and> snd (snd (onScanSuccess currentUser userAccessibleLocations now0 now rendered st barcode
                       locationId)) = st"
    by (cases "handleItemScan currentUser userAccessibleLocations now0 now
                 (renderedView rendered st) barcode locationId")
       (simp add: onScanSuccess_def)
  with denied [OF refl refl] show ?thesis by blast
qed

theorem access_denied_leaves_state_witness:
  "role ex_auditor \<noteq> Admin
   \<and> find (\<lambda>item. item_id item = ''A1'' \<or> sku item = ''A1'') (itemMaster ex_catalog) = Some ex_item
   \<and> map loc_name [ex_loc2] = [''L2''] \<and> location ex_item = ''L1''
   \<and> map loc_id [ex_loc2] = [''id2'']
   \<and> find (\<lambda>loc. loc_id loc = ''id2'') (locations ex_catalog) = Some ex_loc2
   \<and> handleItemScan (Some ex_auditor) [ex_loc2] ''t0'' ''t1'' ex_catalog ''A1'' ''id2''
       = (False, [ToastError ''Access denied''], ex_catalog)
   \<and> onScanSuccess (Some ex_auditor) [ex_loc2] ''t0'' ''t1'' ex_catalog (ex_counted 1 Discrepancy)
       ''A1'' ''id2'' = (False, [ToastError ''Access denied''], ex_counted 1 Discrepancy)"
proof -
  have evaluated:
    "role ex_auditor \<noteq> Admin
     \<and> find (\<lambda>item. item_id item = ''A1'' \<or> sku item = ''A1'') (itemMaster ex_catalog) = Some ex_item
     \<and> map loc_name [ex_loc2] = [''L2''] \<and> location ex_item = ''L1''
     \<and> map loc_id [ex_loc2] = [''id2'']
     \<and> find (\<lambda>loc. loc_id loc = ''id2'') (locations ex_catalog) = Some ex_loc2
     \<and> handleItemScan (Some ex_auditor) [ex_loc2] ''t0'' ''t1'' ex_catalog ''A1'' ''id2''
         = (False, [ToastError ''Access denied''], ex_catalog)
     \<and> onScanSuccess (Some ex_auditor) [ex_loc2] ''t0'' ''t1'' ex_catalog (ex_counted 1 Discrepancy)
         ''A1'' ''id2'' = (False, [ToastError ''Access denied''], ex_counted 1 Discrepancy)"
    by (simp add: ex_catalog_lookup ex_scan_denied ex_camera_denied) (simp add: ex_defs user_defs)
  show ?thesis
    by (insert access_denied_leaves_state [where currentUser = "Some ex_auditor"
          and userAccessibleLocations = "[ex_loc2]"
          and ?now0.0 = "''t0''" and now = "''t1''" and rendered = ex_catalog
          and st = "ex_counted 1 Discrepancy" and barcode = "''A1''"
          and locationId = "''id2''" and masterItem = ex_item])
       (rule evaluated)
qed

section \<open>Scans through the camera\<close>


section \<open>Summaries\<close>

text \<open>
  Claim C9. For every list of distinct location names that covers the locations of the master
  records, the global \<open>totalItems\<close> is the sum of the per-location \<open>totalItems\<close>; and for
  records identified by (SKU, location), the per-location summary is the global summary of the
  state restricted to the records of that location.
\<close>

theorem summary_partition_consistency:
  "(distinct locs \<and> set (map location (itemMaster st)) \<subseteq> set locs \<longrightarrow>
      totalItems (getInventorySummary st)
        = sum_list (map (\<lambda>l. totalItems (getLocationSummary st l)) locs))
   \<and> (distinct (map (\<lambda>i. (sku i, location i)) (auditedItems st)) \<longrightarrow>
        getLocationSummary st locationName
          = getInventorySummary
              (st\<lparr> itemMaster := filter (\<lambda>item. location item = locationName) (itemMaster st),
                    auditedItems := filter (\<lambda>item. location item = locationName) (auditedItems st) \<rparr>))"
proof (intro conjI impI)
  assume "distinct locs \<and> set (map location (itemMaster st)) \<subseteq> set locs"
  then show "totalItems (getInventorySummary st)
        = sum_list (map (\<lambda>l. totalItems (getLocationSummary st l)) locs)"
    using length_partition [of locs location "itemMaster st"]
    by (simp add: getInventorySummary_def getLocationSummary_def Let_def)
next
  assume "distinct (map (\<lambda>i. (sku i, location i)) (auditedItems st))"
  from audited_keys_at_location [OF this, of locationName]
  show "getLocationSummary st locationName
          = getInventorySummary
              (st\<lparr> itemMaster := filter (\<lambda>item. location item = locationName) (itemMaster st),
                    auditedItems := filter (\<lambda>item. location item = locationName) (auditedItems st) \<rparr>)"
    by (simp add: getInventorySummary_def getLocationSummary_def Let_def)
qed

theorem summary_partition_consistency_witness:
  "distinct [''L1'', ''L2'']
   \<and> set (map location (itemMaster ex_two)) \<subseteq> set [''L1'', ''L2'']
   \<and> distinct (map (\<lambda>i. (sku i, location i)) (auditedItems ex_two))
   \<and> totalItems (getInventorySummary ex_two) = 2
   \<and> map (\<lambda>l. totalItems (getLocationSummary ex_two l)) [''L1'', ''L2''] = [1, 1]
   \<and> getLocationSummary ex_two ''L1''
       = \<lparr> totalItems = 1, auditedCount = 1, pendingItems = 0, matched = 1, discrepancies = 0 \<rparr>"
proof -
  have evaluated:
    "distinct [''L1'', ''L2'']
     \<and> set (map location (itemMaster ex_two)) \<subseteq> set [''L1'', ''L2'']
     \<and> distinct (map (\<lambda>i. (sku i, location i)) (auditedItems ex_two))
     \<and> totalItems (getInventorySummary ex_two) = 2
     \<and> map (\<lambda>l. totalItems (getLocationSummary ex_two l)) [''L1'', ''L2''] = [1, 1]
     \<and> getLocationSummary ex_two ''L1''
         = \<lparr> totalItems = 1, auditedCount = 1, pendingItems = 0, matched = 1, discrepancies = 0 \<rparr>"
    by (simp add: ex_two_summaries) (simp add: ex_two_def ex_item2_def ex_defs)
  show ?thesis
    by (insert summary_partition_consistency
                 [where st = ex_two and locs = "[''L1'', ''L2'']" and locationName = "''L1''"])
       (rule evaluated)
qed

section \<open>The closing-stock merge\<close>

text \<open>
  Claim C6. The merge keeps, for an incoming row whose (SKU, location) is in the current
  master list, the existing record with only systemQuantity overwritten by the incoming
  value, and takes the incoming row itself otherwise; after a successful \<open>setClosingStock\<close>
  the row stored under the key of an incoming row with an existing record has that record's
  name, notes, physical quantity and audit time, and the system quantity of an incoming row
  of that key.
\<close>

theorem closing_stock_merge_preserves_fields:
  "length (mergedClosingStock master items) = length items
   \<and> (\<forall>n < length items.
        (case find (\<lambda>i. sku i = sku (items ! n) \<and> location i = location (items ! n)) master of
           Some existingItem \<Rightarrow>
             mergedClosingStock master items ! n
               = existingItem\<lparr> systemQuantity := systemQuantity (items ! n) \<rparr> \<and>
             name (mergedClosingStock master items ! n) = name existingItem \<and>
             category (mergedClosingStock master items ! n) = category existingItem \<and>
             systemQuantity (mergedClosingStock master items ! n) = systemQuantity (items ! n)
         | None \<Rightarrow> mergedClosingStock master items ! n = items ! n))
   \<and> (setClosingStock st items = Inr st' \<longrightarrow>
        (\<forall>incomingItem \<in> set items.
           stored_rows (backend st') (sku incomingItem) (location incomingItem) \<noteq> [] \<and>
           (\<forall>existingItem.
              find (\<lambda>i. sku i = sku incomingItem \<and> location i = location incomingItem)
                   (itemMaster st) = Some existingItem \<longrightarrow>
              (\<forall>x \<in> set (stored_rows (backend st') (sku incomingItem) (location incomingItem)).
                 db_name x = name existingItem \<and>
                 db_notes x = item_notes existingItem \<and>
                 physical_quantity x
                   = (case physicalQuantity existingItem of Num n \<Rightarrow> Some n | _ \<Rightarrow> None) \<and>
                 last_audited x = lastAudited existingItem \<and>
                 (\<exists>i \<in> set items. sku i = sku incomingItem \<and> location i = location incomingItem
                      \<and> system_quantity x = systemQuantity i)))))"
proof -
  have p1: "length (mergedClosingStock master items) = length items"
    by (simp add: mergedClosingStock_def)
  have p2: "\<forall>n < length items.
        (case find (\<lambda>i. sku i = sku (items ! n) \<and> location i = location (items ! n)) master of
           Some existingItem \<Rightarrow>
             mergedClosingStock master items ! n
               = existingItem\<lparr> systemQuantity := systemQuantity (items ! n) \<rparr> \<and>
             name (mergedClosingStock master items ! n) = name existingItem \<and>
             category (mergedClosingStock master items ! n) = category existingItem \<and>
             systemQuantity (mergedClosingStock master items ! n) = systemQuantity (items ! n)
         | None \<Rightarrow> mergedClosingStock master items ! n = items ! n)"
    by (simp add: mergedClosingStock_def mergeIncomingItem_def split: option.splits)
  have p3: "stored_rows (backend st') (sku incomingItem) (location incomingItem) \<noteq> [] \<and>
           (\<forall>existingItem.
              find (\<lambda>i. sku i = sku incomingItem \<and> location i = location incomingItem)
                   (itemMaster st) = Some existingItem \<longrightarrow>
              (\<forall>x \<in> set (stored_rows (backend st') (sku incomingItem) (location incomingItem)).
                 db_name x = name existingItem \<and>
                 db_notes x = item_notes existingItem \<and>
                 physical_quantity x
                   = (case physicalQuantity existingItem of Num n \<Rightarrow> Some n | _ \<Rightarrow> None) \<and>
                 last_audited x = lastAudited existingItem \<and>
                 (\<exists>i \<in> set items. sku i = sku incomingItem \<and> location i = location incomingItem
                      \<and> system_quantity x = systemQuantity i)))"
    if a: "setClosingStock st items = Inr st'" and i: "incomingItem \<in> set items"
    for incomingItem
  proof -
    let ?P = "\<lambda>j. sku j = sku incomingItem \<and> location j = location incomingItem"
    let ?rows = "map inventoryItemToDb (mergedClosingStock (itemMaster st) items)"
    have f: "find (\<lambda>r. db_sku r = Some (sku incomingItem) \<and> db_location r = location incomingItem)
               (rev ?rows)
             = map_option (\<lambda>j. inventoryItemToDb (mergeIncomingItem (itemMaster st) j))
                 (find ?P (rev items))"
      by (simp add: mergedClosingStock_def rev_map find_map_comp comp_def)
    from i obtain j where j: "find ?P (rev items) = Some j"
      by (cases "find ?P (rev items)") (auto simp: find_None_iff2)
    have s: "set (stored_rows (backend st') (sku incomingItem) (location incomingItem))
               = {inventoryItemToDb (mergeIncomingItem (itemMaster st) j)}"
      using setClosingStock_Inr(1) [OF a] f j by (simp add: stored_rows_foldl)
    from j have jk: "j \<in> set items" "sku j = sku incomingItem" "location j = location incomingItem"
      using find_Some_mem [of ?P "rev items" j] by auto
    have m: "mergeIncomingItem (itemMaster st) j = e\<lparr> systemQuantity := systemQuantity j \<rparr>"
      if "find ?P (itemMaster st) = Some e" for e
      using that jk by (simp add: mergeIncomingItem_def)
    show ?thesis
      using s jk m by (auto simp: inventoryItemToDb_def)
  qed
  show ?thesis using p1 p2 p3 by blast
qed

theorem closing_stock_merge_preserves_fields_witness:
  "(0::nat) < length [ex_closing_row]
   \<and> find (\<lambda>i. sku i = sku ex_closing_row \<and> location i = location ex_closing_row) [ex_item]
       = Some ex_item
   \<and> name (mergedClosingStock [ex_item] [ex_closing_row] ! 0) = Some ''Widget''
   \<and> systemQuantity (mergedClosingStock [ex_item] [ex_closing_row] ! 0) = 50
   \<and> setClosingStock ex_catalog [ex_closing_row] = Inr ex_catalog_50
   \<and> map db_name (stored_rows (backend ex_catalog_50) ''A1'' ''L1'') = [Some ''Widget'']
   \<and> map system_quantity (stored_rows (backend ex_catalog_50) ''A1'' ''L1'') = [50]"
  using closing_stock_merge_preserves_fields
          [where master = "[ex_item]" and items = "[ex_closing_row]" and st = ex_catalog
             and st' = ex_catalog_50]
  by (simp add: ex_closing_import)
     (simp add: ex_defs ex_closing_row_def ex_catalog_50_def merge_defs stored_rows_def
        inventoryItemToDb_def)

section \<open>Idempotence of the closing-stock import\<close>

text \<open>
  Claim C8. When a closing-stock import has succeeded on a database whose reads succeed,
  applying the same rows again to the state it produced succeeds and returns that very state:
  the database (rows, ids and their order) and the in-memory lists are the same, so no record
  is added and no field differs. Distinct (SKU, location) keys in the database stay distinct.
\<close>

theorem closing_stock_import_idempotent:
  assumes "setClosingStock st items = Inr st1"
    and "\<not> read_error (backend st)"
  shows "setClosingStock st1 items = Inr st1
         \<and> (distinct (map (\<lambda>(i, x). (db_sku x, db_location x)) (inventory_items (backend st)))
              \<longrightarrow> distinct (map (\<lambda>(i, x). (db_sku x, db_location x))
                              (inventory_items (backend st1))))"
proof -
  let ?b1 = "foldl upsert_row (backend st)
               (map inventoryItemToDb (mergedClosingStock (itemMaster st) items))"
  from assms(1) have
    ok: "items = [] \<or> write_error (backend st) = None \<and>
           (\<forall>i \<in> set items. name (mergeIncomingItem (itemMaster st) i) \<noteq> None)"
    and st1: "st1 = st\<lparr> backend := ?b1, itemMaster := getItemMaster ?b1,
                         closingStock := getClosingStock ?b1 \<rparr>"
    by (simp_all add: setClosingStock_iff)
  note noop = second_merge_noop [OF assms(2) refl, where master = "itemMaster st" and items = items]
  have b: "backend st1 = ?b1" "itemMaster st1 = getItemMaster ?b1" by (simp_all add: st1)
  have names: "\<forall>i \<in> set items. name (mergeIncomingItem (itemMaster st1) i) \<noteq> None"
    if "items \<noteq> []"
  proof
    fix i assume "i \<in> set items"
    with noop(2) obtain j where "j \<in> set items"
      "db_name (inventoryItemToDb (mergeIncomingItem (getItemMaster ?b1) i))
         = name (mergeIncomingItem (itemMaster st) j)" by blast
    with ok that show "name (mergeIncomingItem (itemMaster st1) i) \<noteq> None"
      by (simp add: b inventoryItemToDb_def)
  qed
  have "setClosingStock st1 items = Inr st1"
    unfolding setClosingStock_iff [of st1 items st1]
    using ok names noop(1) by (auto simp: b) (simp_all add: st1)
  moreover have "distinct (map (\<lambda>(i, x). (db_sku x, db_location x)) (inventory_items (backend st)))
              \<longrightarrow> distinct (map (\<lambda>(i, x). (db_sku x, db_location x))
                              (inventory_items (backend st1)))"
    by (simp add: b foldl_upsert_row_distinct)
  ultimately show ?thesis by blast
qed

theorem closing_stock_import_idempotent_witness:
  "setClosingStock ex_catalog [ex_closing_row] = Inr ex_catalog_50
   \<and> \<not> read_error (backend ex_catalog)
   \<and> setClosingStock ex_catalog_50 [ex_closing_row] = Inr ex_catalog_50
   \<and> map fst (inventory_items (backend ex_catalog_50)) = [''row'']"
proof -
  have reads: "\<not> read_error (backend ex_catalog)"
    by (simp add: ex_defs)
  from closing_stock_import_idempotent [OF ex_closing_import reads]
  have "setClosingStock ex_catalog_50 [ex_closing_row] = Inr ex_catalog_50"
    by blast
  moreover have "map fst (inventory_items (backend ex_catalog_50)) = [''row'']"
    by (simp add: ex_catalog_50_def ex_defs)
  ultimately show ?thesis
    using ex_closing_import reads by blast
qed

section \<open>The item-master import\<close>

text \<open>
  Claim C7. Every item the item-master branch of \<open>handleImport\<close> submits has systemQuantity
  0, whatever \<open>processItemMasterData\<close> returned, and so has its database row; after that
  branch went through, and after a \<open>handleImport\<close> of a master file alone that reports
  success, every row stored under the key of an imported row has system quantity 0.
\<close>

theorem catalog_import_forces_zero:
  "(\<forall>item \<in> set (processedItems processItemMasterData items).
      systemQuantity item = 0 \<and> system_quantity (inventoryItemToDb item) = 0)
   \<and> (importItemMaster processCSV processItemMasterData True (Some fileText) st = Inr (ts, st') \<longrightarrow>
        (\<forall>item \<in> set (processItemMasterData (processCSV fileText)).
           stored_rows (backend st') (sku item) (location item) \<noteq> [] \<and>
           (\<forall>x \<in> set (stored_rows (backend st') (sku item) (location item)).
              system_quantity x = 0)))
   \<and> (handleImport processCSV processItemMasterData processClosingStockData userRole True
          canUploadClosingStock (Some fileText) None selectedLocation st
        = ([ToastSuccess ''Item master data imported''], st2) \<longrightarrow>
        (\<forall>item \<in> set (processItemMasterData (processCSV fileText)).
           stored_rows (backend st2) (sku item) (location item) \<noteq> [] \<and>
           (\<forall>x \<in> set (stored_rows (backend st2) (sku item) (location item)).
              system_quantity x = 0)))"
proof -
  have stage: "stored_rows (backend s1) (sku item) (location item) \<noteq> [] \<and>
           (\<forall>x \<in> set (stored_rows (backend s1) (sku item) (location item)).
              system_quantity x = 0)"
    if a: "importItemMaster processCSV processItemMasterData True (Some fileText) st = Inr (t, s1)"
      and i: "item \<in> set (processItemMasterData (processCSV fileText))"
    for t s1 item
  proof -
    let ?base = "processItemMasterData (processCSV fileText)"
    let ?P = "\<lambda>j. sku j = sku item \<and> location j = location item"
    let ?rows = "map inventoryItemToDb (processedItems processItemMasterData (processCSV fileText))"
    have b: "backend s1 = foldl upsert_row (backend st) ?rows"
      using setItemMaster_Inr(1) [OF importItemMaster_Inr [OF a]] .
    have f: "find (\<lambda>r. db_sku r = Some (sku item) \<and> db_location r = location item) (rev ?rows)
             = map_option (\<lambda>j. inventoryItemToDb (j\<lparr> systemQuantity := 0 \<rparr>)) (find ?P (rev ?base))"
      by (simp add: processedItems_def rev_map find_map_comp comp_def)
    from i obtain j where j: "find ?P (rev ?base) = Some j"
      by (cases "find ?P (rev ?base)") (auto simp: find_None_iff2)
    have s: "set (stored_rows (backend s1) (sku item) (location item))
               = {inventoryItemToDb (j\<lparr> systemQuantity := 0 \<rparr>)}"
      using b f j by (simp add: stored_rows_foldl)
    have "stored_rows (backend s1) (sku item) (location item) \<noteq> []"
      using s by auto
    moreover have "\<forall>x \<in> set (stored_rows (backend s1) (sku item) (location item)).
                     system_quantity x = 0"
      unfolding s by (simp add: inventoryItemToDb_def)
    ultimately show ?thesis by blast
  qed
  have zero: "\<forall>item \<in> set (processedItems processItemMasterData items).
      systemQuantity item = 0 \<and> system_quantity (inventoryItemToDb item) = 0"
    by (auto simp: processedItems_def inventoryItemToDb_def)
  show ?thesis
    using zero stage handleImport_master_only [of processCSV processItemMasterData
            processClosingStockData userRole canUploadClosingStock fileText selectedLocation st st2]
    by blast
qed

theorem catalog_import_forces_zero_witness:
  "ex_item \<in> set [ex_item] \<and> systemQuantity ex_item = 3
   \<and> importItemMaster (\<lambda>text. [ex_item]) (\<lambda>rows. rows) True (Some ''sku,name,location,quantity'')
       ex_state = Inr ([ToastSuccess ''Item master data imported''], ex_catalog_zero)
   \<and> handleImport (\<lambda>text. [ex_item]) (\<lambda>rows. rows) (\<lambda>rows l ls. rows) Admin True True
       (Some ''sku,name,location,quantity'') None ''default'' ex_state
       = ([ToastSuccess ''Item master data imported''], ex_catalog_zero)
   \<and> map system_quantity (stored_rows (backend ex_catalog_zero) ''A1'' ''L1'') = [0]"
proof -
  have evaluated:
    "ex_item \<in> set [ex_item] \<and> systemQuantity ex_item = 3
     \<and> importItemMaster (\<lambda>text. [ex_item]) (\<lambda>rows. rows) True
         (Some ''sku,name,location,quantity'') ex_state
         = Inr ([ToastSuccess ''Item master data imported''], ex_catalog_zero)
     \<and> handleImport (\<lambda>text. [ex_item]) (\<lambda>rows. rows) (\<lambda>rows l ls. rows) Admin True True
         (Some ''sku,name,location,quantity'') None ''default'' ex_state
         = ([ToastSuccess ''Item master data imported''], ex_catalog_zero)
     \<and> map system_quantity (stored_rows (backend ex_catalog_zero) ''A1'' ''L1'') = [0]"
    by (simp add: ex_master_import handleImport_def importClosingStock_def)
       (simp add: ex_defs ex_catalog_zero_def stored_rows_def inventoryItemToDb_def)
  show ?thesis
    by (insert catalog_import_forces_zero
          [where processItemMasterData = "\<lambda>rows. rows" and processCSV = "\<lambda>text. [ex_item]"
             and processClosingStockData = "\<lambda>rows l ls. rows" and userRole = Admin
             and canUploadClosingStock = True and selectedLocation = "''default''"
             and items = "[ex_item]" and fileText = "''sku,name,location,quantity''"
             and st = ex_state and st' = ex_catalog_zero and ?st2.0 = ex_catalog_zero
             and ts = "[ToastSuccess ''Item master data imported'']"])
       (rule evaluated)
qed

section \<open>Negative manual quantities\<close>

text \<open>
  Claim C10. For every item and every quantity below zero, \<open>addItemToAudit\<close> returns without
  an error and leaves the whole state as it was: the in-memory lists and the database, to
  which no call is made.
\<close>

theorem addItemToAudit_negative_ignored:
  "quantity < 0 \<Longrightarrow> addItemToAudit now0 now st item quantity = Inr st"
  by (simp add: addItemToAudit_def)

theorem addItemToAudit_negative_ignored_witness:
  "(- 1 :: int) < 0 \<and> addItemToAudit ''t0'' ''t1'' ex_catalog ex_item (- 1) = Inr ex_catalog"
  using addItemToAudit_negative_ignored [of "- 1" "''t0''" "''t1''" ex_catalog ex_item]
  by simp

end
